theory Spec2Isabelle
  imports Complex_Main "HOL-Library.AList"
begin

section \<open>JavaScript values used by the agent\<close>

text \<open>
  The agent (\<^verbatim>\<open>arbitrumagent/arbitrumAgent.ts\<close>) is TypeScript. Strings are modelled as
  \<^typ>\<open>string\<close>; an \<^verbatim>\<open>async\<close> function that rejects (a \<^verbatim>\<open>throw\<close>) returns
  \<open>Inl m\<close>, where \<open>m\<close> is the text the source reads back with
  \<^verbatim>\<open>error instanceof Error ? error.message : String(error)\<close>; a normal return is \<open>Inr\<close>.
\<close>

type_synonym 'a throws = "string + 'a"

text \<open>A JavaScript number, as far as the source compares it: \<^verbatim>\<open>isNaN(n)\<close> and \<^verbatim>\<open>n <= 0\<close>.\<close>

datatype number = NaN | Finite rat | PosInfinity | NegInfinity

fun isNaN :: "number \<Rightarrow> bool" where
  "isNaN NaN = True"
| "isNaN _ = False"

fun le_zero :: "number \<Rightarrow> bool" where
  "le_zero NaN = False"
| "le_zero (Finite r) = (r \<le> 0)"
| "le_zero PosInfinity = False"
| "le_zero NegInfinity = True"

text \<open>
  What \<^verbatim>\<open>obj[key]\<close> yields on the plain object \<^verbatim>\<open>tokenMap\<close>: \<^verbatim>\<open>undefined\<close>, a string that
  was stored, or a member inherited from \<^verbatim>\<open>Object.prototype\<close> (a function or object).
\<close>

datatype jsval = Undefined | Str string | Inherited string

fun truthy :: "jsval \<Rightarrow> bool" where
  "truthy Undefined = False"
| "truthy (Str s) = (s \<noteq> [])"
| "truthy (Inherited k) = True"

definition Object_prototype_keys :: "string list" where
  "Object_prototype_keys =
     [''constructor'', ''hasOwnProperty'', ''isPrototypeOf'', ''propertyIsEnumerable'',
      ''toLocaleString'', ''toString'', ''valueOf'', ''__proto__'',
      ''__defineGetter__'', ''__defineSetter__'', ''__lookupGetter__'', ''__lookupSetter__'']"

text \<open>
  \<^verbatim>\<open>const tokenMap: { [name: string]: string } = {}\<close>: the own properties in insertion
  order. Reading a key that is not an own property falls through to \<^verbatim>\<open>Object.prototype\<close>;
  assigning a string to \<^verbatim>\<open>__proto__\<close> is ignored by the prototype setter.
\<close>

type_synonym token_map = "(string \<times> string) list"

definition get_prop :: "token_map \<Rightarrow> string \<Rightarrow> jsval" where
  "get_prop obj k =
     (case map_of obj k of
        Some v \<Rightarrow> Str v
      | None \<Rightarrow> if k \<in> set Object_prototype_keys then Inherited k else Undefined)"

definition set_prop :: "token_map \<Rightarrow> string \<Rightarrow> string \<Rightarrow> token_map" where
  "set_prop obj k v = (if k = ''__proto__'' then obj else AList.update k v obj)"

text \<open>The keys the registry holds of its own.\<close>

definition registry_keys :: "token_map \<Rightarrow> string set" where
  "registry_keys tm = fst ` set tm"

subsection \<open>String helpers\<close>

definition lower_letters :: string where
  "lower_letters = ''abcdefghijklmnopqrstuvwxyz''"

definition upper_letters :: string where
  "upper_letters = ''ABCDEFGHIJKLMNOPQRSTUVWXYZ''"

text \<open>\<^verbatim>\<open>toUpperCase\<close> and \<^verbatim>\<open>toLowerCase\<close> on the ASCII letters; other characters are kept.\<close>

definition toUpperCase :: "string \<Rightarrow> string" where
  "toUpperCase s =
     map (\<lambda>c. case map_of (zip lower_letters upper_letters) c of Some u \<Rightarrow> u | None \<Rightarrow> c) s"

definition toLowerCase :: "string \<Rightarrow> string" where
  "toLowerCase s =
     map (\<lambda>c. case map_of (zip upper_letters lower_letters) c of Some l \<Rightarrow> l | None \<Rightarrow> c) s"

text \<open>The white space that \<^verbatim>\<open>trim()\<close> strips, among the characters of \<^typ>\<open>char\<close>.\<close>

definition is_white_space :: "char \<Rightarrow> bool" where
  "is_white_space c =
     (c \<in> set [CHR 0x09, CHR 0x0A, CHR 0x0B, CHR 0x0C, CHR 0x0D, CHR 0x20, CHR 0xA0])"

definition trim :: "string \<Rightarrow> string" where
  "trim s = rev (dropWhile is_white_space (rev (dropWhile is_white_space s)))"

text \<open>\<^verbatim>\<open>s.split(" ")\<close>: cut at every single space; the empty string gives one empty token.\<close>

fun split_space :: "string \<Rightarrow> string list" where
  "split_space [] = [[]]"
| "split_space (c # cs) =
     (if c = CHR 0x20 then [] # split_space cs
      else (case split_space cs of t # ts \<Rightarrow> (c # t) # ts | [] \<Rightarrow> [[c]]))"

text \<open>\<^verbatim>\<open>xs.join(sep)\<close>.\<close>

fun join :: "string \<Rightarrow> string list \<Rightarrow> string" where
  "join sep [] = []"
| "join sep [x] = x"
| "join sep (x # y # ys) = x @ sep @ join sep (y # ys)"

text \<open>A template literal prints an \<^verbatim>\<open>undefined\<close> value as the word.\<close>

fun template :: "string option \<Rightarrow> string" where
  "template None = ''undefined''"
| "template (Some s) = s"

definition nl :: string where
  "nl = [CHR 0x0A]"

definition apostrophe :: string where
  "apostrophe = [CHR 0x27]"

definition dquote :: string where
  "dquote = [CHR 0x22]"

definition ARBITRUM_EXPLORER_URL :: string where
  "ARBITRUM_EXPLORER_URL = ''https://sepolia.arbiscan.io''"

definition ARBITRUM_FAUCET_URL :: string where
  "ARBITRUM_FAUCET_URL = ''https://faucet.triangleplatform.com/arbitrum/sepolia''"

section \<open>The libraries and the network, as parameters\<close>

text \<open>
  The functions of the language runtime and of \<^verbatim>\<open>ethers\<close> that compute without the network.
  They are not code of the agent, so every definition below takes them as a parameter.
\<close>

record runtime =
  isAddress :: "string \<Rightarrow> bool"
  Number :: "string \<Rightarrow> number"
  parseInt :: "string \<Rightarrow> number"
  numberToString :: "rat \<Rightarrow> string"
  parseEther :: "string \<Rightarrow> nat throws"
  parseUnits :: "string \<Rightarrow> nat \<Rightarrow> nat throws"
  formatEther :: "nat \<Rightarrow> string"
  formatUnits :: "nat \<Rightarrow> string \<Rightarrow> string"
  newWallet :: "string \<Rightarrow> string throws"
  newContract :: "jsval \<Rightarrow> string throws"
  JSON_stringify :: "(string \<times> nat \<times> string) list \<Rightarrow> string"

text \<open>A signing wallet: the private key and the address derived from it.\<close>

datatype wallet = Wallet (privateKey: string) (address: string)

text \<open>A log entry as \<^verbatim>\<open>provider.getLogs\<close> returns it.\<close>

record log_entry =
  transactionHash :: string
  blockNumber :: nat
  data :: string

text \<open>
  Every awaited call that leaves the process (RPC reads, signing, submissions, HTTP), in the
  order it is made. A transaction submitted by \<^verbatim>\<open>transferTokens\<close> carries no nonce of its
  own (\<open>None\<close>); the batch passes one.
\<close>

datatype call =
    GetNonce string
  | SendTransaction string string nat "nat option"
  | TokenTransfer string string nat nat
  | Wait string
  | GetBalance string
  | BalanceOf string string
  | SignMessage string string
  | GetBlockNumber
  | GetLogs nat nat string
  | GetFeeData
  | Deploy string string string number
  | WaitForDeployment string
  | GetAddress string
  | HttpGet string

text \<open>
  The answers of the network. The first argument is the number of calls the running
  operation has made so far, so the same request may be answered differently later on.
\<close>

record chain =
  getNonce :: "nat \<Rightarrow> string \<Rightarrow> nat throws"
  sendTransaction :: "nat \<Rightarrow> string \<Rightarrow> string \<Rightarrow> nat \<Rightarrow> nat option \<Rightarrow> string throws"
  tokenTransfer :: "nat \<Rightarrow> string \<Rightarrow> string \<Rightarrow> nat \<Rightarrow> nat \<Rightarrow> string throws"
  wait :: "nat \<Rightarrow> string \<Rightarrow> string option throws"
  getBalance :: "nat \<Rightarrow> string \<Rightarrow> nat throws"
  balanceOf :: "nat \<Rightarrow> string \<Rightarrow> string \<Rightarrow> nat throws"
  signMessage :: "nat \<Rightarrow> string \<Rightarrow> string \<Rightarrow> string throws"
  getBlockNumber :: "nat \<Rightarrow> nat throws"
  getLogs :: "nat \<Rightarrow> nat \<Rightarrow> nat \<Rightarrow> string \<Rightarrow> log_entry list throws"
  getFeeData :: "nat \<Rightarrow> nat option throws"
  deploy :: "nat \<Rightarrow> string \<Rightarrow> string \<Rightarrow> string \<Rightarrow> number \<Rightarrow> string throws"
  waitForDeployment :: "nat \<Rightarrow> string \<Rightarrow> unit throws"
  getAddress :: "nat \<Rightarrow> string \<Rightarrow> string throws"
  axios_get :: "nat \<Rightarrow> string \<Rightarrow> rat option throws"

section \<open>Session store: class BlockchainTools\<close>

text \<open>
  The mutable state of the process: the wallet field of \<^verbatim>\<open>BlockchainTools\<close> and the global
  \<^verbatim>\<open>tokenMap\<close>.
\<close>

record agent_state =
  wallet :: "wallet option"
  tokenMap :: token_map

definition getWallet :: "agent_state \<Rightarrow> wallet option" where
  "getWallet st = wallet st"

definition setWallet :: "agent_state \<Rightarrow> wallet \<Rightarrow> agent_state" where
  "setWallet st w = st\<lparr>wallet := Some w\<rparr>"

definition clearWallet :: "agent_state \<Rightarrow> agent_state" where
  "clearWallet st = st\<lparr>wallet := None\<rparr>"

text \<open>What a tool's \<^verbatim>\<open>_call\<close> leaves behind: its result, the state, the calls it made.\<close>

type_synonym outcome = "string throws \<times> agent_state \<times> call list"

section \<open>The tools\<close>

definition SetWalletTool_call :: "runtime \<Rightarrow> agent_state \<Rightarrow> string \<Rightarrow> outcome" where
  "SetWalletTool_call rt st key =
     (case newWallet rt key of
        Inl e \<Rightarrow> (Inl (''Failed to set wallet: '' @ e), st, [])
      | Inr addr \<Rightarrow>
          (Inr (''Wallet set to address: '' @ addr), setWallet st (Wallet key addr), []))"

definition DisconnectWalletTool_call :: "agent_state \<Rightarrow> outcome" where
  "DisconnectWalletTool_call st = (Inr ''Wallet disconnected successfully'', clearWallet st, [])"

definition GetWalletAddressTool_call :: "agent_state \<Rightarrow> outcome" where
  "GetWalletAddressTool_call st =
     (case getWallet st of
        None \<Rightarrow> (Inr ''No wallet set. Please provide a private key.'', st, [])
      | Some w \<Rightarrow> (Inr (address w), st, []))"

text \<open>
  \<^verbatim>\<open>Object.entries(tokenMap)\<close>: keys that are array indices come first, in ascending
  order, then the other keys in the order they were created.
\<close>

fun decimal_value :: "string \<Rightarrow> nat \<Rightarrow> nat option" where
  "decimal_value [] acc = Some acc"
| "decimal_value (c # cs) acc =
     (case map_of (zip ''0123456789'' [0, 1, 2, 3, 4, 5, 6, 7, 8, 9]) c of
        None \<Rightarrow> None
      | Some d \<Rightarrow> decimal_value cs (10 * acc + d))"

definition is_array_index :: "string \<Rightarrow> bool" where
  "is_array_index k =
     (k \<noteq> [] \<and> (k = ''0'' \<or> hd k \<noteq> CHR ''0'') \<and>
      (case decimal_value k 0 of None \<Rightarrow> False | Some n \<Rightarrow> n < 4294967295))"

definition Object_entries :: "token_map \<Rightarrow> (string \<times> string) list" where
  "Object_entries obj =
     sort_key (\<lambda>(k, v). case decimal_value k 0 of None \<Rightarrow> 0 | Some n \<Rightarrow> n)
       (filter (\<lambda>(k, v). is_array_index k) obj)
     @ filter (\<lambda>(k, v). \<not> is_array_index k) obj"

text \<open>The loop of \<^verbatim>\<open>GetBalanceTool._call\<close> over the created tokens, each in its own \<^verbatim>\<open>try\<close>.\<close>

fun token_balances ::
  "runtime \<Rightarrow> chain \<Rightarrow> string \<Rightarrow> nat \<Rightarrow> (string \<times> string) list \<Rightarrow> string list \<times> call list"
where
  "token_balances rt ch owner clock [] = ([], [])"
| "token_balances rt ch owner clock ((name, tokenAddress) # rest) =
     (case newContract rt (Str tokenAddress) of
        Inl e \<Rightarrow>
          (let (bs, cs) = token_balances rt ch owner clock rest
           in ((name @ '' Balance: Unable to fetch'') # bs, cs))
      | Inr contract \<Rightarrow>
          (case balanceOf ch clock contract owner of
             Inl e \<Rightarrow>
               (let (bs, cs) = token_balances rt ch owner (clock + 1) rest
                in ((name @ '' Balance: Unable to fetch'') # bs, BalanceOf contract owner # cs))
           | Inr balance \<Rightarrow>
               (let (bs, cs) = token_balances rt ch owner (clock + 1) rest
                in ((name @ '' Balance: '' @ formatUnits rt balance ''0'' @ '' '' @ name) # bs,
                    BalanceOf contract owner # cs))))"

definition GetBalanceTool_call :: "runtime \<Rightarrow> chain \<Rightarrow> agent_state \<Rightarrow> outcome" where
  "GetBalanceTool_call rt ch st =
     (case getWallet st of
        None \<Rightarrow> (Inr ''No wallet set.'', st, [])
      | Some w \<Rightarrow>
          (case getBalance ch 0 (address w) of
             Inl e \<Rightarrow> (Inl e, st, [GetBalance (address w)])
           | Inr ethBalance \<Rightarrow>
               (let (bs, cs) = token_balances rt ch (address w) 1 (Object_entries (tokenMap st));
                    balances = (''ETH Balance: '' @ formatEther rt ethBalance @ '' ETH'') # bs
                in (Inr (if length balances > 0 then join nl balances
                         else ''No balances available.''),
                    st, GetBalance (address w) # cs))))"

definition TransferTokensTool_call ::
  "runtime \<Rightarrow> chain \<Rightarrow> agent_state \<Rightarrow> string \<Rightarrow> string \<Rightarrow> outcome"
where
  "TransferTokensTool_call rt ch st recipient amt =
     (case getWallet st of
        None \<Rightarrow> (Inr ''No wallet set.'', st, [])
      | Some w \<Rightarrow>
          (case parseEther rt amt of
             Inl e \<Rightarrow> (Inl (''Failed to transfer tokens: '' @ e), st, [])
           | Inr v \<Rightarrow>
               (case sendTransaction ch 0 (address w) recipient v None of
                  Inl e \<Rightarrow>
                    (Inl (''Failed to transfer tokens: '' @ e), st,
                     [SendTransaction (address w) recipient v None])
                | Inr txHash \<Rightarrow>
                    (case wait ch 1 txHash of
                       Inl e \<Rightarrow>
                         (Inl (''Failed to transfer tokens: '' @ e), st,
                          [SendTransaction (address w) recipient v None, Wait txHash])
                     | Inr receipt \<Rightarrow>
                         (Inr (''Transferred '' @ amt @ '' ETH to '' @ recipient @ ''. Tx: ''
                               @ ARBITRUM_EXPLORER_URL @ ''/tx/'' @ txHash),
                          st, [SendTransaction (address w) recipient v None, Wait txHash])))))"

definition SignMessageTool_call :: "chain \<Rightarrow> agent_state \<Rightarrow> string \<Rightarrow> outcome" where
  "SignMessageTool_call ch st message =
     (case getWallet st of
        None \<Rightarrow> (Inr ''No wallet set.'', st, [])
      | Some w \<Rightarrow>
          (case signMessage ch 0 (address w) message of
             Inl e \<Rightarrow>
               (Inl (''Failed to sign message: '' @ e), st, [SignMessage (address w) message])
           | Inr signature \<Rightarrow>
               (Inr (''Message signed: '' @ signature), st,
                [SignMessage (address w) message])))"

text \<open>\<^verbatim>\<open>logs.slice(0, count)\<close>: a negative count is taken from the end.\<close>

definition slice0 :: "'a list \<Rightarrow> int \<Rightarrow> 'a list" where
  "slice0 xs n = (if 0 \<le> n then take (nat n) xs else take (length xs - nat (- n)) xs)"

definition GetTransactionHistoryTool_call ::
  "runtime \<Rightarrow> chain \<Rightarrow> agent_state \<Rightarrow> int \<Rightarrow> outcome"
where
  "GetTransactionHistoryTool_call rt ch st count =
     (case getWallet st of
        None \<Rightarrow> (Inr ''No wallet set.'', st, [])
      | Some w \<Rightarrow>
          (case getBlockNumber ch 0 of
             Inl e \<Rightarrow> (Inl e, st, [GetBlockNumber])
           | Inr blockNum \<Rightarrow>
               (let fromBlock = nat (max (int blockNum - 99) 0);
                    calls = [GetBlockNumber, GetLogs fromBlock blockNum (address w)]
                in case getLogs ch 1 fromBlock blockNum (address w) of
                     Inl e \<Rightarrow>
                       (Inr (''Failed to fetch transaction history: '' @ e), st, calls)
                   | Inr logs \<Rightarrow>
                       (let recentTxs =
                              map (\<lambda>l. (ARBITRUM_EXPLORER_URL @ ''/tx/'' @ transactionHash l,
                                         blockNumber l, data l))
                                (slice0 logs count)
                        in (Inr (''Recent '' @ numberToString rt (of_int count)
                                 @ '' transactions:'' @ nl @ JSON_stringify rt recentTxs),
                            st, calls)))))"

text \<open>\<^verbatim>\<open>if (!gasPrice)\<close> also holds for the bigint \<^verbatim>\<open>0n\<close>.\<close>

definition GetGasPriceTool_call :: "runtime \<Rightarrow> chain \<Rightarrow> agent_state \<Rightarrow> outcome" where
  "GetGasPriceTool_call rt ch st =
     (case getFeeData ch 0 of
        Inl e \<Rightarrow> (Inl e, st, [GetFeeData])
      | Inr gasPrice \<Rightarrow>
          (case gasPrice of
             None \<Rightarrow> (Inr ''Unable to fetch gas price.'', st, [GetFeeData])
           | Some p \<Rightarrow>
               if p = 0 then (Inr ''Unable to fetch gas price.'', st, [GetFeeData])
               else (Inr (''Current gas price: '' @ formatUnits rt p ''gwei'' @ '' gwei''),
                     st, [GetFeeData])))"

definition coingecko_url :: "string \<Rightarrow> string" where
  "coingecko_url token =
     ''https://api.coingecko.com/api/v3/simple/price?ids='' @ toLowerCase token
     @ ''&vs_currencies=usd''"

text \<open>The answer of the price service is read as \<^verbatim>\<open>response.data[token]?.usd\<close>.\<close>

definition GetTokenPriceTool_call ::
  "runtime \<Rightarrow> chain \<Rightarrow> agent_state \<Rightarrow> string \<Rightarrow> outcome"
where
  "GetTokenPriceTool_call rt ch st token =
     (case axios_get ch 0 (coingecko_url token) of
        Inl e \<Rightarrow> (Inl (''Failed to fetch price: '' @ e), st, [HttpGet (coingecko_url token)])
      | Inr price \<Rightarrow>
          (case price of
             None \<Rightarrow> (Inr (''Price not found for '' @ token), st, [HttpGet (coingecko_url token)])
           | Some p \<Rightarrow>
               if p = 0
               then (Inr (''Price not found for '' @ token), st, [HttpGet (coingecko_url token)])
               else (Inr (''Price of '' @ token @ '': $'' @ numberToString rt p @ '' USD''),
                     st, [HttpGet (coingecko_url token)])))"

definition mockTokens_json :: string where
  "mockTokens_json =
     join nl
       [''['',
        ''  {'',
        ''    '' @ dquote @ ''token'' @ dquote @ '': '' @ dquote @ ''TEST1'' @ dquote @ '','',
        ''    '' @ dquote @ ''price'' @ dquote @ '': '' @ dquote @ ''$0.05'' @ dquote,
        ''  },'',
        ''  {'',
        ''    '' @ dquote @ ''token'' @ dquote @ '': '' @ dquote @ ''TEST2'' @ dquote @ '','',
        ''    '' @ dquote @ ''price'' @ dquote @ '': '' @ dquote @ ''$0.10'' @ dquote,
        ''  }'',
        '']'']"

definition GetTrendingTokensTool_call :: "agent_state \<Rightarrow> outcome" where
  "GetTrendingTokensTool_call st =
     (Inr (''Trending tokens on Arbitrum Sepolia (mocked):'' @ nl @ mockTokens_json), st, [])"

definition created_message :: "string \<Rightarrow> string \<Rightarrow> string \<Rightarrow> string" where
  "created_message name symbol contractAddress =
     ''Token '' @ name @ '' ('' @ symbol @ '') created successfully at ''
     @ ARBITRUM_EXPLORER_URL @ ''/address/'' @ contractAddress"

text \<open>
  \<^verbatim>\<open>CreateTokenTool._call\<close>. The check of the supply throws inside the \<^verbatim>\<open>try\<close>, so its
  message is wrapped like every other failure. The registry is written under the symbol.
\<close>

definition CreateTokenTool_call ::
  "runtime \<Rightarrow> chain \<Rightarrow> agent_state \<Rightarrow> string \<Rightarrow> string \<Rightarrow> string \<Rightarrow> outcome"
where
  "CreateTokenTool_call rt ch st name symbol totalSupply =
     (case getWallet st of
        None \<Rightarrow> (Inr ''No wallet set. Please set a wallet first.'', st, [])
      | Some w \<Rightarrow>
          (let totalSupplyNum = parseInt rt totalSupply
           in if isNaN totalSupplyNum \<or> le_zero totalSupplyNum
              then (Inl (''Failed to create token: ''
                         @ ''Invalid total supply: must be a positive number''), st, [])
              else
                (case deploy ch 0 (address w) name symbol totalSupplyNum of
                   Inl e \<Rightarrow>
                     (Inl (''Failed to create token: '' @ e), st,
                      [Deploy (address w) name symbol totalSupplyNum])
                 | Inr contract \<Rightarrow>
                     (case waitForDeployment ch 1 contract of
                        Inl e \<Rightarrow>
                          (Inl (''Failed to create token: '' @ e), st,
                           [Deploy (address w) name symbol totalSupplyNum,
                            WaitForDeployment contract])
                      | Inr u \<Rightarrow>
                          (case getAddress ch 2 contract of
                             Inl e \<Rightarrow>
                               (Inl (''Failed to create token: '' @ e), st,
                                [Deploy (address w) name symbol totalSupplyNum,
                                 WaitForDeployment contract, GetAddress contract])
                           | Inr contractAddress \<Rightarrow>
                               (Inr (created_message name symbol contractAddress),
                                st\<lparr>tokenMap := set_prop (tokenMap st) symbol contractAddress\<rparr>,
                                [Deploy (address w) name symbol totalSupplyNum,
                                 WaitForDeployment contract, GetAddress contract]))))))"

definition GetFaucetTokensTool_call :: "runtime \<Rightarrow> agent_state \<Rightarrow> string \<Rightarrow> outcome" where
  "GetFaucetTokensTool_call rt st addr =
     (if \<not> isAddress rt addr then (Inr ''Invalid Ethereum address provided.'', st, [])
      else (Inr (''To get testnet ETH for '' @ addr @ '', visit '' @ ARBITRUM_FAUCET_URL
                 @ '', paste your address ('' @ addr
                 @ ''), and follow the instructions to claim tokens.''), st, []))"

definition commands :: "string list" where
  "commands =
     [''setWallet <privateKey> - Set your wallet'',
      ''disconnectWallet - Disconnect and clear your wallet'',
      ''getWalletAddress - Get your wallet address'',
      ''getBalance - Check your ETH and token balances'',
      ''transferTokens <to> <amount> - Transfer ETH tokens'',
      ''signMessage <message> - Sign a message'',
      ''getTransactionHistory [count] - Get recent transactions (default 5)'',
      ''getGasPrice - Get current gas price'',
      ''getTokenPrice <token> - Get token price (e.g., ETH)'',
      ''getTrendingTokens - Get trending tokens (mocked for Arbitrum)'',
      ''createToken <name> <symbol> <totalSupply> - Create a new token'',
      ''getFaucetTokens <address> - Request testnet ETH from Arbitrum faucet'',
      ''batchMixedTransfer <type1> <to1> <amount1> [tokenName1] <type2> <to2> <amount2> [tokenName2] - Transfer ETH and tokens'',
      ''help - Show this list'']"

definition HelpTool_call :: "agent_state \<Rightarrow> outcome" where
  "HelpTool_call st = (Inr (''Available commands:'' @ nl @ join nl commands), st, [])"


section \<open>BatchMixedTransferTool\<close>

record transfer =
  type :: string
  to :: string
  amount :: string
  tokenName :: "string option"

text \<open>\<^verbatim>\<open>parts[j]\<close>, which is \<^verbatim>\<open>undefined\<close> past the end of the array.\<close>

definition at_index :: "'a list \<Rightarrow> nat \<Rightarrow> 'a option" where
  "at_index xs j = (if j < length xs then Some (xs ! j) else None)"

text \<open>
  The two checks every item ends with. \<^verbatim>\<open>ethers.isAddress(undefined)\<close> is false and
  \<^verbatim>\<open>Number(undefined)\<close> is \<^verbatim>\<open>NaN\<close>, so a token that is not there fails its check.
\<close>

definition check_item ::
  "runtime \<Rightarrow> string \<Rightarrow> string option \<Rightarrow> string option \<Rightarrow> string option \<Rightarrow> string + transfer"
where
  "check_item rt ty recipient amt tok =
     (case recipient of
        None \<Rightarrow> Inl (''Invalid address: '' @ template recipient)
      | Some r \<Rightarrow>
          if \<not> isAddress rt r then Inl (''Invalid address: '' @ template recipient)
          else
            (case amt of
               None \<Rightarrow> Inl (''Invalid amount: '' @ template amt)
             | Some a \<Rightarrow>
                 if isNaN (Number rt a) \<or> le_zero (Number rt a)
                 then Inl (''Invalid amount: '' @ template amt)
                 else Inr \<lparr>type = ty, to = r, amount = a, tokenName = tok\<rparr>))"

text \<open>
  The parsing loop \<^verbatim>\<open>for (let i = 0; i < parts.length; i += 3)\<close>, with the extra \<^verbatim>\<open>i++\<close>
  of a TOKEN item. \<open>Inl\<close> is the text of an early \<^verbatim>\<open>return\<close>.
\<close>

function parse_transfers ::
  "runtime \<Rightarrow> token_map \<Rightarrow> string list \<Rightarrow> nat \<Rightarrow> transfer list \<Rightarrow> string + transfer list"
where
  "parse_transfers rt tm parts i transferList =
     (if i < length parts then
        (let ty = toUpperCase (parts ! i);
             recipient = at_index parts (i + 1);
             amt = at_index parts (i + 2)
         in if ty = ''TOKEN'' then
              (if i + 3 \<ge> length parts
               then Inl (''Missing token name for TOKEN transfer at position ''
                         @ numberToString rt (of_nat i / 3 + 1))
               else
                 (let tok = parts ! (i + 3)
                  in if \<not> truthy (get_prop tm tok)
                     then Inl (''Token '' @ tok
                               @ '' not found. Please create it first using createToken.'')
                     else
                       (case check_item rt ty recipient amt (Some tok) of
                          Inl msg \<Rightarrow> Inl msg
                        | Inr item \<Rightarrow>
                            parse_transfers rt tm parts (i + 1 + 3) (transferList @ [item]))))
            else if ty \<noteq> ''ETH'' then
              Inl (''Invalid type: '' @ ty @ ''. Use '' @ apostrophe @ ''ETH'' @ apostrophe
                   @ '' or '' @ apostrophe @ ''TOKEN'' @ apostrophe)
            else
              (case check_item rt ty recipient amt None of
                 Inl msg \<Rightarrow> Inl msg
               | Inr item \<Rightarrow> parse_transfers rt tm parts (i + 3) (transferList @ [item])))
      else Inr transferList)"
  by pat_completeness auto
termination
  by (relation "measure (\<lambda>(rt, tm, parts, i, transferList). length parts - i)") auto

declare parse_transfers.simps [simp del]

subsection \<open>Execution\<close>

text \<open>\<^verbatim>\<open>receipt && receipt.hash\<close>: a receipt that is not null and has a non-empty hash.\<close>

fun receipt_hash :: "string option \<Rightarrow> string option" where
  "receipt_hash None = None"
| "receipt_hash (Some h) = (if h = [] then None else Some h)"

text \<open>\<^verbatim>\<open>type === "ETH" ? "ETH" : tokenName\<close>, as printed in an entry.\<close>

definition asset_label :: "transfer \<Rightarrow> string" where
  "asset_label item = (if type item = ''ETH'' then ''ETH'' else template (tokenName item))"

definition success_entry :: "runtime \<Rightarrow> nat \<Rightarrow> string \<Rightarrow> transfer \<Rightarrow> string \<Rightarrow> string" where
  "success_entry rt index label item h =
     numberToString rt (of_nat index + 1) @ ''. **'' @ label @ '' Transfer to '' @ to item
     @ ''**:'' @ nl @ ''   - Amount: '' @ amount item @ '' '' @ label @ nl
     @ ''   - Status: Successful'' @ nl
     @ ''   - Transaction Link: [View Transaction]('' @ ARBITRUM_EXPLORER_URL @ ''/tx/'' @ h
     @ '')''"

definition failure_entry :: "runtime \<Rightarrow> nat \<Rightarrow> transfer \<Rightarrow> string \<Rightarrow> string" where
  "failure_entry rt index item errorMsg =
     numberToString rt (of_nat index + 1) @ ''. **'' @ asset_label item @ '' Transfer to ''
     @ to item @ ''**:'' @ nl @ ''   - Amount: '' @ amount item @ '' '' @ asset_label item @ nl
     @ ''   - Status: Failed'' @ nl @ ''   - Error: '' @ errorMsg"

text \<open>
  The body of the \<^verbatim>\<open>try\<close> for one item, up to but not including \<^verbatim>\<open>nonce++\<close>: \<open>Inr\<close> holds
  the entries pushed to \<^verbatim>\<open>results\<close> when the body runs to its end, \<open>Inl\<close> the message of the
  error thrown; the second component lists the calls made. An item that is neither ETH nor
  a TOKEN with a truthy name runs through the body without a call and without an entry.
\<close>

definition try_transfer ::
  "runtime \<Rightarrow> chain \<Rightarrow> wallet \<Rightarrow> token_map \<Rightarrow> nat \<Rightarrow> nat \<Rightarrow> nat \<Rightarrow> transfer
     \<Rightarrow> string list throws \<times> call list"
where
  "try_transfer rt ch w tm index nonce clock item =
     (if type item = ''ETH'' then
        (case parseEther rt (amount item) of
           Inl e \<Rightarrow> (Inl e, [])
         | Inr v \<Rightarrow>
             (case sendTransaction ch clock (address w) (to item) v (Some nonce) of
                Inl e \<Rightarrow> (Inl e, [SendTransaction (address w) (to item) v (Some nonce)])
              | Inr txHash \<Rightarrow>
                  (case wait ch (clock + 1) txHash of
                     Inl e \<Rightarrow>
                       (Inl e,
                        [SendTransaction (address w) (to item) v (Some nonce), Wait txHash])
                   | Inr receipt \<Rightarrow>
                       (case receipt_hash receipt of
                          Some h \<Rightarrow>
                            (Inr [success_entry rt index ''ETH'' item h],
                             [SendTransaction (address w) (to item) v (Some nonce),
                              Wait txHash])
                        | None \<Rightarrow>
                            (Inl ''Transaction receipt is null or invalid'',
                             [SendTransaction (address w) (to item) v (Some nonce),
                              Wait txHash])))))
      else if type item = ''TOKEN'' \<and> tokenName item \<noteq> None \<and> tokenName item \<noteq> Some [] then
        (case newContract rt (get_prop tm (template (tokenName item))) of
           Inl e \<Rightarrow> (Inl e, [])
         | Inr tokenAddress \<Rightarrow>
             (case parseUnits rt (amount item) 0 of
                Inl e \<Rightarrow> (Inl e, [])
              | Inr amountWei \<Rightarrow>
                  (case tokenTransfer ch clock tokenAddress (to item) amountWei nonce of
                     Inl e \<Rightarrow> (Inl e, [TokenTransfer tokenAddress (to item) amountWei nonce])
                   | Inr txHash \<Rightarrow>
                       (case wait ch (clock + 1) txHash of
                          Inl e \<Rightarrow>
                            (Inl e,
                             [TokenTransfer tokenAddress (to item) amountWei nonce, Wait txHash])
                        | Inr receipt \<Rightarrow>
                            (case receipt_hash receipt of
                               Some h \<Rightarrow>
                                 (Inr [success_entry rt index (template (tokenName item)) item h],
                                  [TokenTransfer tokenAddress (to item) amountWei nonce,
                                   Wait txHash])
                             | None \<Rightarrow>
                                 (Inl ''Transaction receipt is null or invalid'',
                                  [TokenTransfer tokenAddress (to item) amountWei nonce,
                                   Wait txHash]))))))
      else (Inr [], []))"

text \<open>
  One iteration of the execution loop as it is observed: the value of \<^verbatim>\<open>nonce\<close> when the
  iteration starts, the calls it makes, whether the \<^verbatim>\<open>try\<close> body threw, and the entries the
  iteration pushed to \<^verbatim>\<open>results\<close>.
\<close>

datatype attempt =
  Attempt (used_nonce: nat) (calls: "call list") (threw: bool) (pushed: "string list")

text \<open>
  The loop \<^verbatim>\<open>for (const [index, item] of transferList.entries())\<close>. \<^verbatim>\<open>nonce++\<close> is the last
  statement of the \<^verbatim>\<open>try\<close> body, so it runs only when the body did not throw; the
  \<^verbatim>\<open>catch\<close> pushes the failure entry and leaves \<^verbatim>\<open>nonce\<close> as it is.
\<close>

fun transfer_loop ::
  "runtime \<Rightarrow> chain \<Rightarrow> wallet \<Rightarrow> token_map \<Rightarrow> nat \<Rightarrow> nat \<Rightarrow> nat \<Rightarrow> transfer list
     \<Rightarrow> attempt list"
where
  "transfer_loop rt ch w tm index nonce clock [] = []"
| "transfer_loop rt ch w tm index nonce clock (item # rest) =
     (case try_transfer rt ch w tm index nonce clock item of
        (Inr entries, cs) \<Rightarrow>
          Attempt nonce cs False entries
          # transfer_loop rt ch w tm (index + 1) (nonce + 1) (clock + length cs) rest
      | (Inl errorMsg, cs) \<Rightarrow>
          Attempt nonce cs True [failure_entry rt index item errorMsg]
          # transfer_loop rt ch w tm (index + 1) nonce (clock + length cs) rest)"

definition batch_summary :: "runtime \<Rightarrow> string list \<Rightarrow> string" where
  "batch_summary rt results =
     ''The batch mixed transfer completed with '' @ numberToString rt (of_nat (length results))
     @ '' operations:'' @ nl @ nl @ join (nl @ nl) results"

definition BatchMixedTransferTool_call ::
  "runtime \<Rightarrow> chain \<Rightarrow> agent_state \<Rightarrow> string \<Rightarrow> outcome"
where
  "BatchMixedTransferTool_call rt ch st transfers =
     (case getWallet st of
        None \<Rightarrow>
          (Inr (''No wallet set. Please set a wallet with '' @ apostrophe
                @ ''setWallet <privateKey>'' @ apostrophe @ '' first.''), st, [])
      | Some w \<Rightarrow>
          (let parts = split_space (trim transfers)
           in if length parts < 3
              then (Inr ''Invalid format. Use: batchMixedTransfer <type1> <to1> <amount1> [tokenName1] <type2> <to2> <amount2> [tokenName2] ...'', st, [])
              else
                (case parse_transfers rt (tokenMap st) parts 0 [] of
                   Inl msg \<Rightarrow> (Inr msg, st, [])
                 | Inr transferList \<Rightarrow>
                     (case getNonce ch 0 (address w) of
                        Inl e \<Rightarrow> (Inl e, st, [GetNonce (address w)])
                      | Inr nonce \<Rightarrow>
                          (let journal =
                                 transfer_loop rt ch w (tokenMap st) 0 nonce 1 transferList;
                               results = concat (map pushed journal)
                           in (Inr (batch_summary rt results), st,
                               GetNonce (address w) # concat (map calls journal)))))))"


subsection \<open>Reading the journal and the token stream\<close>







text \<open>
  The walk over the token stream as the specification words it: an ETH item takes three
  tokens (kind, recipient, amount), a TOKEN item four (kind, recipient, amount, asset
  name), left to right, until the stream is used up. The kind is compared in upper case.
\<close>

fun walk_covers :: "transfer list \<Rightarrow> string list \<Rightarrow> bool" where
  "walk_covers [] tokens = (tokens = [])"
| "walk_covers (item # items) (k # r # a # rest) =
     (toUpperCase k = type item \<and> r = to item \<and> a = amount item \<and>
      (if type item = ''TOKEN''
       then (case rest of
               [] \<Rightarrow> False
             | n # rest' \<Rightarrow> tokenName item = Some n \<and> walk_covers items rest')
       else type item = ''ETH'' \<and> tokenName item = None \<and> walk_covers items rest))"
| "walk_covers (item # items) tokens = False"

text \<open>
  Tokenizing by white space as the specification words it: the maximal runs of characters
  that are not white space.
\<close>

fun split_on :: "(char \<Rightarrow> bool) \<Rightarrow> string \<Rightarrow> string list" where
  "split_on p [] = [[]]"
| "split_on p (c # cs) =
     (if p c then [] # split_on p cs
      else (case split_on p cs of t # ts \<Rightarrow> (c # t) # ts | [] \<Rightarrow> [[c]]))"

definition whitespace_tokens :: "string \<Rightarrow> string list" where
  "whitespace_tokens s = filter (\<lambda>t. t \<noteq> []) (split_on is_white_space s)"


text \<open>
  The checks \<^verbatim>\<open>BatchMixedTransferTool._call\<close> makes on one item before it is pushed to
  \<^verbatim>\<open>transferList\<close>: the address, the amount, and the kind with its registry lookup.
\<close>

definition passes_checks :: "runtime \<Rightarrow> token_map \<Rightarrow> transfer \<Rightarrow> bool" where
  "passes_checks rt tm item =
     (isAddress rt (to item) \<and> \<not> isNaN (Number rt (amount item))
      \<and> \<not> le_zero (Number rt (amount item))
      \<and> (case tokenName item of
            None \<Rightarrow> type item = ''ETH''
          | Some tok \<Rightarrow> type item = ''TOKEN'' \<and> truthy (get_prop tm tok)))"

definition tab :: string where
  "tab = [CHR 0x09]"


section \<open>The tool catalogue and the agent graph\<close>

text \<open>A call of one of the fourteen tools of the array \<^verbatim>\<open>tools\<close>, with its arguments.\<close>

datatype tool_call =
    Call_setWallet string
  | Call_disconnectWallet
  | Call_getWalletAddress
  | Call_getBalance
  | Call_transferTokens string string
  | Call_signMessage string
  | Call_getTransactionHistory int
  | Call_getGasPrice
  | Call_getTokenPrice string
  | Call_getTrendingTokens
  | Call_createToken string string string
  | Call_getFaucetTokens string
  | Call_batchMixedTransfer string
  | Call_help

fun invoke_tool :: "runtime \<Rightarrow> chain \<Rightarrow> agent_state \<Rightarrow> tool_call \<Rightarrow> outcome" where
  "invoke_tool rt ch st (Call_setWallet key) = SetWalletTool_call rt st key"
| "invoke_tool rt ch st Call_disconnectWallet = DisconnectWalletTool_call st"
| "invoke_tool rt ch st Call_getWalletAddress = GetWalletAddressTool_call st"
| "invoke_tool rt ch st Call_getBalance = GetBalanceTool_call rt ch st"
| "invoke_tool rt ch st (Call_transferTokens recipient amt) =
     TransferTokensTool_call rt ch st recipient amt"
| "invoke_tool rt ch st (Call_signMessage message) = SignMessageTool_call ch st message"
| "invoke_tool rt ch st (Call_getTransactionHistory count) =
     GetTransactionHistoryTool_call rt ch st count"
| "invoke_tool rt ch st Call_getGasPrice = GetGasPriceTool_call rt ch st"
| "invoke_tool rt ch st (Call_getTokenPrice token) = GetTokenPriceTool_call rt ch st token"
| "invoke_tool rt ch st Call_getTrendingTokens = GetTrendingTokensTool_call st"
| "invoke_tool rt ch st (Call_createToken name symbol totalSupply) =
     CreateTokenTool_call rt ch st name symbol totalSupply"
| "invoke_tool rt ch st (Call_getFaucetTokens addr) = GetFaucetTokensTool_call rt st addr"
| "invoke_tool rt ch st (Call_batchMixedTransfer transfers) =
     BatchMixedTransferTool_call rt ch st transfers"
| "invoke_tool rt ch st Call_help = HelpTool_call st"

text \<open>The messages of the conversation; only an AI message has the field \<^verbatim>\<open>tool_calls\<close>.\<close>

datatype message =
    SystemMessage string
  | HumanMessage string
  | AIMessage string "tool_call list"
  | ToolMessage string

fun tool_calls :: "message \<Rightarrow> tool_call list option" where
  "tool_calls (AIMessage content requested) = Some requested"
| "tool_calls _ = None"

definition END :: string where
  "END = ''__end__''"

definition system_prompt :: string where
  "system_prompt = ''You are an AI assistant that helps users interact with the Arbitrum Sepolia testnet. Use the provided tools to assist the user. The wallet private key persists until the user explicitly disconnects.''"

text \<open>
  \<^verbatim>\<open>callAgent\<close>: the model is asked with the system message in front, and the reducer of the
  channel appends its response. The model (\<open>llm\<close>) is a parameter.
\<close>

definition callAgent ::
  "(message list \<Rightarrow> message throws) \<Rightarrow> message list \<Rightarrow> message list throws"
where
  "callAgent llm messages =
     (case llm (SystemMessage system_prompt # messages) of
        Inl e \<Rightarrow> Inl e
      | Inr response \<Rightarrow> Inr (messages @ [response]))"

text \<open>
  \<^verbatim>\<open>shouldContinue\<close>. On an empty array the last message is \<^verbatim>\<open>undefined\<close> and the \<^verbatim>\<open>in\<close>
  operator throws a TypeError.
\<close>

definition shouldContinue :: "message list \<Rightarrow> string throws" where
  "shouldContinue messages =
     (if messages = []
      then Inl (''Cannot use '' @ apostrophe @ ''in'' @ apostrophe @ '' operator to search for ''
                @ apostrophe @ ''tool_calls'' @ apostrophe @ '' in undefined'')
      else
        (case tool_calls (last messages) of
           Some requested \<Rightarrow> if length requested > 0 then Inr ''tools'' else Inr END
         | None \<Rightarrow> Inr END))"

text \<open>
  Modelled from the spec: the node \<^verbatim>\<open>tools\<close> is \<^verbatim>\<open>new ToolNode(tools)\<close> of the graph
  library, whose code is not under \<^verbatim>\<open>src/\<close>. Section 4.5 of the specification: operation
  failures are represented as ordinary result content fed back into the conversation, and
  the loop continues from there. The node runs the tool calls of the last message one
  after the other, each on the session the one before has left, and answers each with a
  tool message: the text the tool returned or, when the tool threw, the library's wording
  around the message of the error. A conversation that does not end with a message of the
  model is refused.
\<close>

fun run_requested ::
  "runtime \<Rightarrow> chain \<Rightarrow> agent_state \<Rightarrow> tool_call list \<Rightarrow> message list \<times> agent_state"
where
  "run_requested rt ch st [] = ([], st)"
| "run_requested rt ch st (c # cs) =
     (case invoke_tool rt ch st c of
        (res, st', made) \<Rightarrow>
          (case run_requested rt ch st' cs of
             (out, st'') \<Rightarrow>
               (ToolMessage
                  (case res of
                     Inr text \<Rightarrow> text
                   | Inl e \<Rightarrow> ''Error: '' @ e @ nl @ '' Please fix your mistakes.'')
                # out,
                st'')))"

definition ToolNode ::
  "runtime \<Rightarrow> chain \<Rightarrow> agent_state \<Rightarrow> message list \<Rightarrow> (message list \<times> agent_state) throws"
where
  "ToolNode rt ch st messages =
     (if messages = [] then Inl ''ToolNode only accepts AIMessages as input.''
      else
        (case tool_calls (last messages) of
           None \<Rightarrow> Inl ''ToolNode only accepts AIMessages as input.''
         | Some requested \<Rightarrow> Inr (run_requested rt ch st requested)))"

text \<open>
  Modelled from the spec: the runner of the graph. \<^verbatim>\<open>workflow.compile()\<close> and
  \<^verbatim>\<open>agent.invoke\<close> belong to the graph library, whose code is not under \<^verbatim>\<open>src/\<close>. Section
  4.5 of the specification: the loop ends on an answer that requests no operation or on
  exhausting a maximum turn count. The source passes no limit of its own to \<^verbatim>\<open>compile()\<close>
  or \<^verbatim>\<open>invoke()\<close>, so the default of the library applies (25 steps, one step for every
  run of a node). The limit and the message of the error the runner throws when the limit
  is reached are the parameters of the runner.
\<close>

record runner =
  recursionLimit :: nat
  recursionError :: string

datatype node = agent_node | tools_node

text \<open>
  The graph \<^verbatim>\<open>workflow\<close>: \<^verbatim>\<open>__start__\<close> to \<^verbatim>\<open>agent\<close>, from \<^verbatim>\<open>agent\<close> along \<^verbatim>\<open>shouldContinue\<close>
  to \<^verbatim>\<open>tools\<close> or to the end, from \<^verbatim>\<open>tools\<close> back to \<^verbatim>\<open>agent\<close>; these are all the edges
  the source declares. The run starts at a node with a number of steps left and returns
  the outcome together with the nodes it has run, in order. The model (\<open>llm\<close>) and the node
  \<^verbatim>\<open>tools\<close> are parameters.
\<close>

fun run_graph ::
  "(message list \<Rightarrow> message throws)
     \<Rightarrow> (agent_state \<Rightarrow> message list \<Rightarrow> (message list \<times> agent_state) throws)
     \<Rightarrow> string \<Rightarrow> nat \<Rightarrow> node \<Rightarrow> agent_state \<Rightarrow> message list
     \<Rightarrow> (message list \<times> agent_state) throws \<times> node list"
where
  "run_graph llm toolNode err 0 nd st messages = (Inl err, [])"
| "run_graph llm toolNode err (Suc steps) agent_node st messages =
     (case callAgent llm messages of
        Inl e \<Rightarrow> (Inl e, [agent_node])
      | Inr answered \<Rightarrow>
          (case shouldContinue answered of
             Inl e \<Rightarrow> (Inl e, [agent_node])
           | Inr next \<Rightarrow>
               if next = ''tools'' then
                 (case run_graph llm toolNode err steps tools_node st answered of
                    (result, visited) \<Rightarrow> (result, agent_node # visited))
               else (Inr (answered, st), [agent_node])))"
| "run_graph llm toolNode err (Suc steps) tools_node st messages =
     (case toolNode st messages of
        Inl e \<Rightarrow> (Inl e, [tools_node])
      | Inr (out, st') \<Rightarrow>
          (case run_graph llm toolNode err steps agent_node st' (messages @ out) of
             (result, visited) \<Rightarrow> (result, tools_node # visited)))"

text \<open>\<^verbatim>\<open>agent.invoke({ messages })\<close>: the run from the node \<^verbatim>\<open>agent\<close>.\<close>

definition agent_invoke ::
  "runner \<Rightarrow> (message list \<Rightarrow> message throws)
     \<Rightarrow> (agent_state \<Rightarrow> message list \<Rightarrow> (message list \<times> agent_state) throws)
     \<Rightarrow> agent_state \<Rightarrow> message list
     \<Rightarrow> (message list \<times> agent_state) throws \<times> node list"
where
  "agent_invoke r llm toolNode st messages =
     run_graph llm toolNode (recursionError r) (recursionLimit r) agent_node st messages"

section \<open>A concrete runtime and network\<close>

text \<open>
  Instances of the parameters on which the definitions can be evaluated: decimal integers
  for the numbers, forty hexadecimal digits for an address, and a network on which every
  call succeeds and every account has nonce 7.
\<close>

function decimal_string :: "nat \<Rightarrow> string" where
  "decimal_string n =
     (if n < 10 then [''0123456789'' ! n]
      else decimal_string (n div 10) @ [''0123456789'' ! (n mod 10)])"
  by pat_completeness auto
termination
  by (relation "measure id") auto

declare decimal_string.simps [simp del]

definition is_hex_address :: "string \<Rightarrow> bool" where
  "is_hex_address s =
     (length s = 42 \<and> take 2 s = ''0x'' \<and>
      list_all (\<lambda>c. c \<in> set ''0123456789abcdefABCDEF'') (drop 2 s))"

definition decimal_number :: "string \<Rightarrow> number" where
  "decimal_number s = (case decimal_value s 0 of None \<Rightarrow> NaN | Some n \<Rightarrow> Finite (of_nat n))"

definition whole_units :: "string \<Rightarrow> nat \<Rightarrow> nat throws" where
  "whole_units s d =
     (if s = [] then Inl ''invalid FixedNumber string value''
      else (case decimal_value s 0 of
              None \<Rightarrow> Inl ''invalid FixedNumber string value''
            | Some n \<Rightarrow> Inr (n * 10 ^ d)))"

definition test_runtime :: runtime where
  "test_runtime =
     \<lparr>isAddress = is_hex_address,
      Number = decimal_number,
      parseInt = (\<lambda>s. if s = [] then NaN else decimal_number s),
      numberToString =
        (\<lambda>r. if 0 \<le> r \<and> of_int \<lfloor>r\<rfloor> = r then decimal_string (nat \<lfloor>r\<rfloor>) else ''NaN''),
      parseEther = (\<lambda>s. whole_units s 18),
      parseUnits = whole_units,
      formatEther = decimal_string,
      formatUnits = (\<lambda>n u. decimal_string n),
      newWallet = (\<lambda>k. if length k = 66 then Inr (take 42 k) else Inl ''invalid private key''),
      newContract =
        (\<lambda>v. case v of Str a \<Rightarrow> Inr a | _ \<Rightarrow> Inl ''invalid value for Contract target''),
      JSON_stringify = (\<lambda>xs. ''[]'')\<rparr>"

definition alice :: string where
  "alice = ''0x00000000000000000000000000000000000000a1''"

definition bob :: string where
  "bob = ''0x00000000000000000000000000000000000000b2''"

definition signer :: wallet where
  "signer = Wallet ''k'' ''0x00000000000000000000000000000000000000c3''"

definition test_chain :: chain where
  "test_chain =
     \<lparr>getNonce = (\<lambda>clock a. Inr 7),
      sendTransaction = (\<lambda>clock sender recipient v n. Inr (''0xtx'' @ decimal_string clock)),
      tokenTransfer = (\<lambda>clock contract recipient v n. Inr (''0xtx'' @ decimal_string clock)),
      wait = (\<lambda>clock h. Inr (Some h)),
      getBalance = (\<lambda>clock a. Inr 5),
      balanceOf = (\<lambda>clock c a. Inr 3),
      signMessage = (\<lambda>clock a m. Inr ''0xsig''),
      getBlockNumber = (\<lambda>clock. Inr 1000),
      getLogs = (\<lambda>clock f t a. Inr []),
      getFeeData = (\<lambda>clock. Inr (Some 100)),
      deploy = (\<lambda>clock a n s t. Inr ''contract''),
      waitForDeployment = (\<lambda>clock c. Inr ()),
      getAddress = (\<lambda>clock c. Inr ''0x00000000000000000000000000000000000000d4''),
      axios_get = (\<lambda>clock u. Inr (Some 2))\<rparr>"

text \<open>The same network, except that the submission made as call number 1 is refused.\<close>

definition refusing_chain :: chain where
  "refusing_chain =
     test_chain\<lparr>sendTransaction :=
       (\<lambda>clock sender recipient v n.
          if clock = 1 then Inl ''insufficient funds''
          else Inr (''0xtx'' @ decimal_string clock))\<rparr>"

text \<open>A network that cannot be reached when a transaction is submitted.\<close>

definition unreachable_chain :: chain where
  "unreachable_chain =
     test_chain\<lparr>sendTransaction :=
       (\<lambda>clock sender recipient v n. Inl ''could not detect network'')\<rparr>"

text \<open>
  The runner with the default limit of the library, and two models: the first requests a
  tool whatever it is shown, the second requests one tool and then answers.
\<close>

definition default_runner :: runner where
  "default_runner =
     \<lparr>recursionLimit = 25,
      recursionError =
        ''Recursion limit of 25 reached without hitting a stop condition. You can increase the limit by setting the ''
        @ dquote @ ''recursionLimit'' @ dquote @ '' config key.''\<rparr>"

definition insistent_llm :: "message list \<Rightarrow> message throws" where
  "insistent_llm messages = Inr (AIMessage [] [Call_help])"

definition answering_llm :: "message list \<Rightarrow> message throws" where
  "answering_llm messages =
     (if length messages < 3 then Inr (AIMessage [] [Call_disconnectWallet])
      else Inr (AIMessage ''The wallet is disconnected.'' []))"

section \<open>Properties\<close>

lemmas eval_defs =
  getWallet_def test_runtime_def refusing_chain_def test_chain_def unreachable_chain_def
  whole_units_def alice_def bob_def signer_def trim_def is_white_space_def toUpperCase_def
  lower_letters_def upper_letters_def at_index_def check_item_def is_hex_address_def
  decimal_number_def try_transfer_def get_prop_def Object_prototype_keys_def
  success_entry_def failure_entry_def asset_label_def batch_summary_def nl_def
  ARBITRUM_EXPLORER_URL_def apostrophe_def

lemmas batch_eval =
  BatchMixedTransferTool_call_def eval_defs parse_transfers.simps decimal_string.simps Let_def

lemmas tool_defs =
  SetWalletTool_call_def DisconnectWalletTool_call_def GetWalletAddressTool_call_def
  GetBalanceTool_call_def TransferTokensTool_call_def SignMessageTool_call_def
  GetTransactionHistoryTool_call_def GetGasPriceTool_call_def GetTokenPriceTool_call_def
  GetTrendingTokensTool_call_def CreateTokenTool_call_def GetFaucetTokensTool_call_def
  BatchMixedTransferTool_call_def HelpTool_call_def

subsection \<open>Session store\<close>

text \<open>
  C9 (idempotent session clear). From any state of the session store, clearing the wallet
  twice gives the same state as clearing it once; so does disconnecting, both calls return
  the success text, and the store then holds no wallet: asking for the address is answered
  with the text for a missing wallet.
\<close>

theorem disconnect_idempotent:
  "clearWallet (clearWallet st) = clearWallet st
   \<and> getWallet (clearWallet st) = None
   \<and> fst (snd (DisconnectWalletTool_call (fst (snd (DisconnectWalletTool_call st)))))
     = fst (snd (DisconnectWalletTool_call st))
   \<and> fst (DisconnectWalletTool_call st) = Inr ''Wallet disconnected successfully''
   \<and> fst (DisconnectWalletTool_call (fst (snd (DisconnectWalletTool_call st))))
       = Inr ''Wallet disconnected successfully''
   \<and> getWallet (fst (snd (DisconnectWalletTool_call (fst (snd (DisconnectWalletTool_call st))))))
       = None
   \<and> fst (GetWalletAddressTool_call
            (fst (snd (DisconnectWalletTool_call (fst (snd (DisconnectWalletTool_call st)))))))
       = Inr ''No wallet set. Please provide a private key.''"
  by (simp add: DisconnectWalletTool_call_def clearWallet_def getWallet_def
      GetWalletAddressTool_call_def)

text \<open>
  C5 (session gating). With no wallet in the session store, each of the six operations that
  need one (balance query, native transfer, message signing, transaction history, token
  creation, batch transfer) returns a text that starts with \<^verbatim>\<open>No wallet set.\<close>, makes no
  call at all, and leaves the state as it is.
\<close>

theorem session_gating:
  "getWallet st = None \<Longrightarrow>
     GetBalanceTool_call rt ch st = (Inr ''No wallet set.'', st, [])
   \<and> TransferTokensTool_call rt ch st recipient amt = (Inr ''No wallet set.'', st, [])
   \<and> SignMessageTool_call ch st message = (Inr ''No wallet set.'', st, [])
   \<and> GetTransactionHistoryTool_call rt ch st count = (Inr ''No wallet set.'', st, [])
   \<and> CreateTokenTool_call rt ch st name symbol totalSupply
        = (Inr ''No wallet set. Please set a wallet first.'', st, [])
   \<and> (\<exists>text. BatchMixedTransferTool_call rt ch st transfers = (Inr text, st, [])
          \<and> take 14 text = ''No wallet set.'')"
  by (simp add: tool_defs apostrophe_def)

theorem session_gating_witness:
  "getWallet \<lparr>wallet = None, tokenMap = []\<rparr> = None
   \<and> GetBalanceTool_call test_runtime test_chain \<lparr>wallet = None, tokenMap = []\<rparr>
       = (Inr ''No wallet set.'', \<lparr>wallet = None, tokenMap = []\<rparr>, [])
   \<and> snd (snd (BatchMixedTransferTool_call test_runtime test_chain
                  \<lparr>wallet = None, tokenMap = []\<rparr> (''ETH '' @ alice @ '' 1''))) = []"
proof -
  have h: "getWallet \<lparr>wallet = None, tokenMap = []\<rparr> = None"
    by (simp add: getWallet_def)
  show ?thesis
    using h session_gating [OF h, of test_runtime test_chain "[]" "[]" "[]" 5 "[]" "[]" "[]"
        "''ETH '' @ alice @ '' 1''"]
    by auto
qed

subsection \<open>The token registry\<close>

lemma set_prop_keys: "fst ` set tm \<subseteq> fst ` set (set_prop tm k v)"
  by (auto simp: set_prop_def dom_update)

lemma set_prop_no_proto:
  "''__proto__'' \<notin> fst ` set tm \<Longrightarrow> ''__proto__'' \<notin> fst ` set (set_prop tm k v)"
  by (auto simp: set_prop_def dom_update)

lemma set_prop_existing:
  assumes "map_of tm k = Some old" and "k \<noteq> ''__proto__''"
  shows "map_of (set_prop tm k v) k = Some v"
    and "\<And>k'. k' \<noteq> k \<Longrightarrow> map_of (set_prop tm k v) k' = map_of tm k'"
    and "map fst (set_prop tm k v) = map fst tm"
proof -
  from assms(1) have "k \<in> fst ` set tm"
    by (metis domI dom_map_of_conv_image_fst)
  then have k: "k \<in> set (map fst tm)" by simp
  show "map_of (set_prop tm k v) k = Some v"
    using assms(2) by (simp add: set_prop_def update_conv')
  show "\<And>k'. k' \<noteq> k \<Longrightarrow> map_of (set_prop tm k v) k' = map_of tm k'"
    using assms(2) by (simp add: set_prop_def update_conv')
  show "map fst (set_prop tm k v) = map fst tm"
    using assms(2) k by (simp add: set_prop_def update_keys)
qed

lemma set_prop_stored:
  assumes "k \<noteq> ''__proto__''"
  shows "map_of (set_prop tm k v) k = Some v"
    and "\<And>k'. k' \<noteq> k \<Longrightarrow> map_of (set_prop tm k v) k' = map_of tm k'"
    and "k \<notin> fst ` set tm \<Longrightarrow> map fst (set_prop tm k v) = map fst tm @ [k]"
  using assms by (simp_all add: set_prop_def update_conv' update_keys)

lemma created_message_inject [simp]:
  "(created_message n s a = created_message n s a') = (a = a')"
  by (simp add: created_message_def)

lemma created_message_not_gate [simp]:
  "created_message n s a \<noteq> ''No wallet set. Please set a wallet first.''"
  "''No wallet set. Please set a wallet first.'' \<noteq> created_message n s a"
  by (simp_all add: created_message_def)

lemma createToken_state:
  "CreateTokenTool_call rt ch st n s t = (res, st', cs) \<Longrightarrow>
     st' = st \<and> (\<forall>a. res \<noteq> Inr (created_message n s a))
     \<or> (\<exists>a. res = Inr (created_message n s a)
             \<and> st' = st\<lparr>tokenMap := set_prop (tokenMap st) s a\<rparr>)"
  by (simp add: CreateTokenTool_call_def Let_def split: option.splits sum.splits if_splits)
     auto

lemma setWallet_tokenMap: "tokenMap (fst (snd (SetWalletTool_call rt st key))) = tokenMap st"
  by (simp add: SetWalletTool_call_def setWallet_def split: sum.splits)

lemma getBalance_state: "fst (snd (GetBalanceTool_call rt ch st)) = st"
  by (simp add: GetBalanceTool_call_def Let_def split: option.splits sum.splits prod.splits)

lemma transferTokens_state: "fst (snd (TransferTokensTool_call rt ch st r a)) = st"
  by (simp add: TransferTokensTool_call_def split: option.splits sum.splits)

lemma signMessage_state: "fst (snd (SignMessageTool_call ch st m)) = st"
  by (simp add: SignMessageTool_call_def split: option.splits sum.splits)

lemma getTransactionHistory_state: "fst (snd (GetTransactionHistoryTool_call rt ch st n)) = st"
  by (simp add: GetTransactionHistoryTool_call_def Let_def split: option.splits sum.splits)

lemma getGasPrice_state: "fst (snd (GetGasPriceTool_call rt ch st)) = st"
  by (simp add: GetGasPriceTool_call_def split: option.splits sum.splits)

lemma getTokenPrice_state: "fst (snd (GetTokenPriceTool_call rt ch st t)) = st"
  by (simp add: GetTokenPriceTool_call_def split: option.splits sum.splits)

lemma batch_state: "fst (snd (BatchMixedTransferTool_call rt ch st t)) = st"
  by (simp add: BatchMixedTransferTool_call_def Let_def split: option.splits sum.splits)

lemma invoke_other_tokenMap:
  "(\<forall>n s t. c \<noteq> Call_createToken n s t) \<Longrightarrow>
     tokenMap (fst (snd (invoke_tool rt ch st c))) = tokenMap st"
  by (cases c)
     (simp_all add: setWallet_tokenMap getBalance_state transferTokens_state signMessage_state
        getTransactionHistory_state getGasPrice_state getTokenPrice_state batch_state
        DisconnectWalletTool_call_def clearWallet_def GetWalletAddressTool_call_def
        GetTrendingTokensTool_call_def GetFaucetTokensTool_call_def HelpTool_call_def
        split: option.splits)

text \<open>
  C10 (registry keying and overwrite). The registry is written under the token's symbol.
  Every tool other than \<^verbatim>\<open>createToken\<close> leaves it as it is; \<^verbatim>\<open>createToken\<close> leaves it as it is
  when it does not succeed, and when it succeeds it assigns the new contract address to
  the property named by the symbol: the symbol then maps to the new address, every other
  key keeps its value, and a symbol that was no key becomes the last key. No call removes
  a key. When the symbol is already a key, a successful \<^verbatim>\<open>createToken\<close> puts the new address
  in place of the old one with the keys unchanged, and whether the call succeeds does not
  depend on what the registry holds. (The one name an assignment cannot create is
  \<^verbatim>\<open>__proto__\<close>; a registry built by the tools never has it as a key.)
\<close>

theorem registry_written_by_createToken_only:
  "((\<forall>n s t. c \<noteq> Call_createToken n s t) \<longrightarrow>
       tokenMap (fst (snd (invoke_tool rt ch st c))) = tokenMap st)
   \<and> (\<forall>n s t. c = Call_createToken n s t \<longrightarrow>
         tokenMap (fst (snd (invoke_tool rt ch st c))) = tokenMap st
         \<or> (\<exists>a. tokenMap (fst (snd (invoke_tool rt ch st c))) = set_prop (tokenMap st) s a
                \<and> fst (invoke_tool rt ch st c) = Inr (created_message n s a)))
   \<and> registry_keys (tokenMap st) \<subseteq> registry_keys (tokenMap (fst (snd (invoke_tool rt ch st c))))
   \<and> (''__proto__'' \<notin> registry_keys (tokenMap st) \<longrightarrow>
        ''__proto__'' \<notin> registry_keys (tokenMap (fst (snd (invoke_tool rt ch st c)))))
   \<and> (\<forall>n s t old a.
         c = Call_createToken n s t \<and> ''__proto__'' \<notin> registry_keys (tokenMap st)
         \<and> map_of (tokenMap st) s = Some old
         \<and> fst (invoke_tool rt ch st c) = Inr (created_message n s a) \<longrightarrow>
         get_prop (tokenMap (fst (snd (invoke_tool rt ch st c)))) s = Str a
         \<and> map fst (tokenMap (fst (snd (invoke_tool rt ch st c)))) = map fst (tokenMap st)
         \<and> (\<forall>k. k \<noteq> s \<longrightarrow> map_of (tokenMap (fst (snd (invoke_tool rt ch st c)))) k
                              = map_of (tokenMap st) k))
   \<and> (\<forall>n s t tm. fst (CreateTokenTool_call rt ch (st\<lparr>tokenMap := tm\<rparr>) n s t)
                   = fst (CreateTokenTool_call rt ch st n s t))
   \<and> (\<forall>n s t a.
         c = Call_createToken n s t
         \<and> fst (invoke_tool rt ch st c) = Inr (created_message n s a) \<longrightarrow>
         tokenMap (fst (snd (invoke_tool rt ch st c))) = set_prop (tokenMap st) s a)
   \<and> (\<forall>n s t a.
         c = Call_createToken n s t \<and> s \<noteq> ''__proto__''
         \<and> fst (invoke_tool rt ch st c) = Inr (created_message n s a) \<longrightarrow>
         get_prop (tokenMap (fst (snd (invoke_tool rt ch st c)))) s = Str a
         \<and> map_of (tokenMap (fst (snd (invoke_tool rt ch st c)))) s = Some a
         \<and> (\<forall>k. k \<noteq> s \<longrightarrow> map_of (tokenMap (fst (snd (invoke_tool rt ch st c)))) k
                              = map_of (tokenMap st) k)
         \<and> (s \<notin> registry_keys (tokenMap st) \<longrightarrow>
              map fst (tokenMap (fst (snd (invoke_tool rt ch st c))))
                = map fst (tokenMap st) @ [s]))"
  (is "?A \<and> ?B \<and> ?C \<and> ?D \<and> ?E \<and> ?F \<and> ?G \<and> ?H")
proof -
  let ?st' = "fst (snd (invoke_tool rt ch st c))"
  have other: "?A" using invoke_other_tokenMap by blast
  have create: "?B"
  proof (intro allI impI)
    fix n s t assume c: "c = Call_createToken n s t"
    obtain res st' cs where r: "CreateTokenTool_call rt ch st n s t = (res, st', cs)"
      by (cases "CreateTokenTool_call rt ch st n s t") auto
    from createToken_state [OF r]
    have "tokenMap st' = tokenMap st
          \<or> (\<exists>a. tokenMap st' = set_prop (tokenMap st) s a \<and> res = Inr (created_message n s a))"
      by auto
    then show "tokenMap ?st' = tokenMap st
         \<or> (\<exists>a. tokenMap ?st' = set_prop (tokenMap st) s a
                \<and> fst (invoke_tool rt ch st c) = Inr (created_message n s a))"
      by (simp add: c r)
  qed
  have cases: "tokenMap ?st' = tokenMap st \<or> (\<exists>s a. tokenMap ?st' = set_prop (tokenMap st) s a)"
  proof (cases "\<exists>n s t. c = Call_createToken n s t")
    case True
    then show ?thesis using create by blast
  next
    case False
    then show ?thesis using other by blast
  qed
  have keys: "?C"
  proof -
    from cases show ?thesis
    proof
      assume "tokenMap ?st' = tokenMap st"
      then show ?thesis by simp
    next
      assume "\<exists>s a. tokenMap ?st' = set_prop (tokenMap st) s a"
      then obtain s a where "tokenMap ?st' = set_prop (tokenMap st) s a" by blast
      then show ?thesis using set_prop_keys [of "tokenMap st" s a] by (simp add: registry_keys_def)
    qed
  qed
  have proto: "?D"
  proof
    assume np: "''__proto__'' \<notin> registry_keys (tokenMap st)"
    from cases show "''__proto__'' \<notin> registry_keys (tokenMap ?st')"
    proof
      assume "tokenMap ?st' = tokenMap st"
      then show ?thesis using np by simp
    next
      assume "\<exists>s a. tokenMap ?st' = set_prop (tokenMap st) s a"
      then obtain s a where "tokenMap ?st' = set_prop (tokenMap st) s a" by blast
      then show ?thesis
        using set_prop_no_proto [of "tokenMap st" s a] np by (simp add: registry_keys_def)
    qed
  qed
  have overwrite: "?E"
  proof (intro allI impI, elim conjE)
    fix n s t old a
    assume c: "c = Call_createToken n s t"
      and np: "''__proto__'' \<notin> registry_keys (tokenMap st)"
      and old: "map_of (tokenMap st) s = Some old"
      and ok: "fst (invoke_tool rt ch st c) = Inr (created_message n s a)"
    from old have "s \<in> fst ` set (tokenMap st)"
      by (metis domI dom_map_of_conv_image_fst)
    with np have ne: "s \<noteq> ''__proto__''" unfolding registry_keys_def by blast
    obtain res st' cs where r: "CreateTokenTool_call rt ch st n s t = (res, st', cs)"
      by (cases "CreateTokenTool_call rt ch st n s t") auto
    from ok c r have res: "res = Inr (created_message n s a)" by simp
    from createToken_state [OF r] res
    have "st' = st\<lparr>tokenMap := set_prop (tokenMap st) s a\<rparr>" by auto
    then have eq: "tokenMap ?st' = set_prop (tokenMap st) s a"
      using c r by simp
    show "get_prop (tokenMap ?st') s = Str a
         \<and> map fst (tokenMap ?st') = map fst (tokenMap st)
         \<and> (\<forall>k. k \<noteq> s \<longrightarrow> map_of (tokenMap ?st') k = map_of (tokenMap st) k)"
      unfolding eq using set_prop_existing [OF old ne] by (simp add: get_prop_def)
  qed
  have indep: "?F"
    by (simp add: CreateTokenTool_call_def getWallet_def Let_def split: option.splits sum.splits)
  have written: "tokenMap ?st' = set_prop (tokenMap st) s a"
    if c: "c = Call_createToken n s t"
      and ok: "fst (invoke_tool rt ch st c) = Inr (created_message n s a)" for n s t a
  proof -
    obtain res st' cs where r: "CreateTokenTool_call rt ch st n s t = (res, st', cs)"
      by (cases "CreateTokenTool_call rt ch st n s t") auto
    from ok c r have res: "res = Inr (created_message n s a)" by simp
    from createToken_state [OF r] res
    have "st' = st\<lparr>tokenMap := set_prop (tokenMap st) s a\<rparr>" by auto
    then show ?thesis using c r by simp
  qed
  have success: "?G" using written by blast
  have stored: "?H"
  proof (intro allI impI, elim conjE)
    fix n s t a
    assume c: "c = Call_createToken n s t" and ne: "s \<noteq> ''__proto__''"
      and ok: "fst (invoke_tool rt ch st c) = Inr (created_message n s a)"
    have eq: "tokenMap ?st' = set_prop (tokenMap st) s a" using written [OF c ok] .
    show "get_prop (tokenMap ?st') s = Str a
         \<and> map_of (tokenMap ?st') s = Some a
         \<and> (\<forall>k. k \<noteq> s \<longrightarrow> map_of (tokenMap ?st') k = map_of (tokenMap st) k)
         \<and> (s \<notin> registry_keys (tokenMap st) \<longrightarrow>
              map fst (tokenMap ?st') = map fst (tokenMap st) @ [s])"
      unfolding eq using set_prop_stored [OF ne, where tm = "tokenMap st" and v = a]
      by (simp add: get_prop_def registry_keys_def)
  qed
  from other create keys proto overwrite indep success stored show ?thesis by blast
qed

theorem registry_written_by_createToken_only_witness:
  "Call_disconnectWallet \<noteq> Call_createToken ''Alpha'' ''ATK'' ''1000''
   \<and> tokenMap (fst (snd (invoke_tool test_runtime test_chain
        \<lparr>wallet = Some signer, tokenMap = [(''ATK'', alice)]\<rparr> Call_disconnectWallet)))
       = [(''ATK'', alice)]
   \<and> ''__proto__'' \<notin> registry_keys [(''ATK'', alice)]
   \<and> map_of [(''ATK'', alice)] ''ATK'' = Some alice
   \<and> fst (invoke_tool test_runtime test_chain
        \<lparr>wallet = Some signer, tokenMap = [(''ATK'', alice)]\<rparr>
        (Call_createToken ''Alpha'' ''ATK'' ''1000''))
       = Inr (created_message ''Alpha'' ''ATK'' ''0x00000000000000000000000000000000000000d4'')
   \<and> get_prop (tokenMap (fst (snd (invoke_tool test_runtime test_chain
        \<lparr>wallet = Some signer, tokenMap = [(''ATK'', alice)]\<rparr>
        (Call_createToken ''Alpha'' ''ATK'' ''1000''))))) ''ATK''
       = Str ''0x00000000000000000000000000000000000000d4''
   \<and> ''ATK'' \<noteq> ''__proto__''
   \<and> ''ATK'' \<notin> registry_keys []
   \<and> fst (invoke_tool test_runtime test_chain \<lparr>wallet = Some signer, tokenMap = []\<rparr>
        (Call_createToken ''Alpha'' ''ATK'' ''1000''))
       = Inr (created_message ''Alpha'' ''ATK'' ''0x00000000000000000000000000000000000000d4'')
   \<and> tokenMap (fst (snd (invoke_tool test_runtime test_chain
        \<lparr>wallet = Some signer, tokenMap = []\<rparr> (Call_createToken ''Alpha'' ''ATK'' ''1000''))))
       = [(''ATK'', ''0x00000000000000000000000000000000000000d4'')]"
proof -
  let ?st = "\<lparr>wallet = Some signer, tokenMap = [(''ATK'', alice)]\<rparr>"
  let ?fresh = "\<lparr>wallet = Some signer, tokenMap = []\<rparr>"
  let ?c = "Call_createToken ''Alpha'' ''ATK'' ''1000''"
  let ?addr = "''0x00000000000000000000000000000000000000d4''"
  have h1: "\<forall>n s t. Call_disconnectWallet \<noteq> Call_createToken n s t" by simp
  have h2: "''__proto__'' \<notin> registry_keys (tokenMap ?st)"
    by (simp add: registry_keys_def)
  have h3: "map_of (tokenMap ?st) ''ATK'' = Some alice" by simp
  have h4: "fst (invoke_tool test_runtime test_chain ?st ?c)
       = Inr (created_message ''Alpha'' ''ATK'' ?addr)"
    by (simp add: CreateTokenTool_call_def eval_defs)
  have h5: "''ATK'' \<noteq> ''__proto__''" by simp
  have h6: "''ATK'' \<notin> registry_keys (tokenMap ?fresh)" by (simp add: registry_keys_def)
  have h7: "fst (invoke_tool test_runtime test_chain ?fresh ?c)
       = Inr (created_message ''Alpha'' ''ATK'' ?addr)"
    by (simp add: CreateTokenTool_call_def eval_defs)
  from registry_written_by_createToken_only [of Call_disconnectWallet test_runtime test_chain ?st] h1
  have a: "tokenMap (fst (snd (invoke_tool test_runtime test_chain ?st Call_disconnectWallet)))
       = [(''ATK'', alice)]"
    by simp
  from registry_written_by_createToken_only [of ?c test_runtime test_chain ?st] h2 h3 h4
  have b: "get_prop (tokenMap (fst (snd (invoke_tool test_runtime test_chain ?st ?c)))) ''ATK''
       = Str ?addr"
    by blast
  from registry_written_by_createToken_only [of ?c test_runtime test_chain ?fresh] h7
  have "tokenMap (fst (snd (invoke_tool test_runtime test_chain ?fresh ?c)))
       = set_prop (tokenMap ?fresh) ''ATK'' ?addr"
    by blast
  then have c: "tokenMap (fst (snd (invoke_tool test_runtime test_chain ?fresh ?c)))
       = [(''ATK'', ?addr)]"
    by (simp add: set_prop_def)
  from a b c h2 h3 h4 h5 h6 h7 show ?thesis by simp
qed

subsection \<open>Batch transfer: parsing\<close>

lemma split_space_nonempty [simp]: "split_space s \<noteq> []"
  by (induction s) (auto split: list.splits)

lemma join_split_space: "join '' '' (split_space s) = s"
proof (induction s)
  case Nil
  then show ?case by simp
next
  case (Cons c cs)
  obtain t ts where ts: "split_space cs = t # ts"
    by (cases "split_space cs") auto
  show ?case
  proof (cases "c = CHR 0x20")
    case True
    with Cons ts show ?thesis by simp
  next
    case False
    with Cons ts show ?thesis by (cases ts) simp_all
  qed
qed

lemma split_space_no_space: "t \<in> set (split_space s) \<Longrightarrow> CHR 0x20 \<notin> set t"
proof (induction s arbitrary: t)
  case Nil
  then show ?case by simp
next
  case (Cons c cs)
  obtain u us where us: "split_space cs = u # us"
    by (cases "split_space cs") auto
  from Cons.IH us have u: "CHR 0x20 \<notin> set u" and rest: "\<And>x. x \<in> set us \<Longrightarrow> CHR 0x20 \<notin> set x"
    by auto
  show ?case
  proof (cases "c = CHR 0x20")
    case True
    with Cons.prems us u rest show ?thesis by auto
  next
    case False
    with Cons.prems us u rest show ?thesis by auto
  qed
qed

lemma check_item_Inr:
  "check_item rt ty r a tok = Inr item \<Longrightarrow>
     r = Some (to item) \<and> a = Some (amount item) \<and> type item = ty \<and> tokenName item = tok
     \<and> isAddress rt (to item) \<and> \<not> isNaN (Number rt (amount item))
     \<and> \<not> le_zero (Number rt (amount item))"
  by (auto simp: check_item_def split: option.splits if_splits)

lemma at_index_Some: "at_index xs j = Some x \<Longrightarrow> j < length xs \<and> xs ! j = x"
  by (auto simp: at_index_def split: if_splits)

lemma drop_three:
  "i + 2 < length xs \<Longrightarrow> drop i xs = xs ! i # xs ! (i + 1) # xs ! (i + 2) # drop (i + 3) xs"
proof -
  assume a: "i + 2 < length xs"
  then have "drop i xs = xs ! i # drop (Suc i) xs" by (simp add: Cons_nth_drop_Suc)
  also from a have "drop (Suc i) xs = xs ! Suc i # drop (Suc (Suc i)) xs"
    by (simp add: Cons_nth_drop_Suc)
  also from a have "drop (Suc (Suc i)) xs = xs ! Suc (Suc i) # drop (Suc (Suc (Suc i))) xs"
    by (simp add: Cons_nth_drop_Suc)
  finally show ?thesis by (simp add: numeral_3_eq_3 numeral_2_eq_2)
qed

lemma parse_transfers_walk:
  "parse_transfers rt tm parts i acc = Inr items \<Longrightarrow>
     \<exists>new. items = acc @ new \<and> walk_covers new (drop i parts)
          \<and> (\<forall>item\<in>set new. passes_checks rt tm item)"
proof (induction rt tm parts i acc rule: parse_transfers.induct)
  case (1 rt tm parts i acc)
  show ?case
  proof (cases "i < length parts")
    case False
    with "1.prems" show ?thesis by (simp add: parse_transfers.simps)
  next
    case True
    let ?ty = "toUpperCase (parts ! i)"
    show ?thesis
    proof (cases "?ty = ''TOKEN''")
      case tok: True
      from "1.prems" True tok have len: "\<not> length parts \<le> i + 3"
        by (auto simp: parse_transfers.simps Let_def split: if_splits)
      from "1.prems" True tok len have tr: "truthy (get_prop tm (parts ! (i + 3)))"
        by (auto simp: parse_transfers.simps Let_def split: if_splits)
      from "1.prems" True tok len tr obtain item where
        chk: "check_item rt ?ty (at_index parts (i + 1)) (at_index parts (i + 2))
                (Some (parts ! (i + 3))) = Inr item"
        and rec: "parse_transfers rt tm parts (i + 1 + 3) (acc @ [item]) = Inr items"
        by (auto simp: parse_transfers.simps Let_def split: if_splits sum.splits)
      from "1.IH"(1) [OF True refl refl refl tok _ refl _ chk rec] len tr
      obtain new where new: "items = (acc @ [item]) @ new"
        and w: "walk_covers new (drop (i + 1 + 3) parts)"
        and v: "\<forall>x\<in>set new. passes_checks rt tm x"
        by auto
      from check_item_Inr [OF chk] have f: "at_index parts (i + 1) = Some (to item)"
        "at_index parts (i + 2) = Some (amount item)" "type item = ''TOKEN''"
        "tokenName item = Some (parts ! (i + 3))" "isAddress rt (to item)"
        "\<not> isNaN (Number rt (amount item))" "\<not> le_zero (Number rt (amount item))"
        using tok by auto
      from len have l2: "i + 2 < length parts" and l3: "i + 3 < length parts" by auto
      have d: "drop i parts = parts ! i # parts ! (i + 1) # parts ! (i + 2)
                 # parts ! (i + 3) # drop (i + 1 + 3) parts"
        using drop_three [OF l2] Cons_nth_drop_Suc [OF l3] by simp
      have "walk_covers (item # new) (drop i parts)"
        unfolding d using f w tok at_index_Some [OF f(1)] at_index_Some [OF f(2)] by simp
      moreover have "passes_checks rt tm item"
        using f tr by (simp add: passes_checks_def)
      ultimately show ?thesis using new v by auto
    next
      case ntok: False
      from "1.prems" True ntok have eth: "?ty = ''ETH''"
        by (auto simp: parse_transfers.simps Let_def split: if_splits)
      from "1.prems" True ntok eth obtain item where
        chk: "check_item rt ?ty (at_index parts (i + 1)) (at_index parts (i + 2)) None = Inr item"
        and rec: "parse_transfers rt tm parts (i + 3) (acc @ [item]) = Inr items"
        by (auto simp: parse_transfers.simps Let_def split: if_splits sum.splits)
      from "1.IH"(2) [OF True refl refl refl ntok _ chk rec] eth
      obtain new where new: "items = (acc @ [item]) @ new"
        and w: "walk_covers new (drop (i + 3) parts)"
        and v: "\<forall>x\<in>set new. passes_checks rt tm x"
        by auto
      from check_item_Inr [OF chk] have f: "at_index parts (i + 1) = Some (to item)"
        "at_index parts (i + 2) = Some (amount item)" "type item = ''ETH''"
        "tokenName item = None" "isAddress rt (to item)"
        "\<not> isNaN (Number rt (amount item))" "\<not> le_zero (Number rt (amount item))"
        using eth by auto
      from at_index_Some [OF f(2)] have l2: "i + 2 < length parts" by simp
      have "walk_covers (item # new) (drop i parts)"
        unfolding drop_three [OF l2]
        using f w eth at_index_Some [OF f(1)] at_index_Some [OF f(2)] by simp
      moreover have "passes_checks rt tm item"
        using f by (simp add: passes_checks_def)
      ultimately show ?thesis using new v by auto
    qed
  qed
qed


text \<open>
  C8 as stated (the input is tokenized by white space) does not hold: the source trims the
  input and cuts it at every single space. Tabs do not separate tokens, and two spaces in
  a row give an empty token.
\<close>

theorem tokenizing_is_by_single_spaces:
  "whitespace_tokens (''ETH'' @ tab @ alice @ tab @ ''1'') = [''ETH'', alice, ''1'']
   \<and> split_space (trim (''ETH'' @ tab @ alice @ tab @ ''1'')) = [''ETH'' @ tab @ alice @ tab @ ''1'']
   \<and> whitespace_tokens ''ETH  a 1'' = [''ETH'', ''a'', ''1'']
   \<and> split_space (trim ''ETH  a 1'') = [''ETH'', [], ''a'', ''1'']"
  by (simp add: whitespace_tokens_def tab_def eval_defs)

text \<open>
  C8, amended. The trimmed input is cut at every single space: joining the tokens with one
  space gives the trimmed input back, and no token holds a space. Whenever parsing
  succeeds, the items cover the whole token stream in order, an ETH item taking exactly
  three tokens and a TOKEN item exactly four.
\<close>

theorem parse_covers_space_separated_tokens:
  "parse_transfers rt tm (split_space (trim transfers)) 0 [] = Inr items \<Longrightarrow>
     walk_covers items (split_space (trim transfers))
   \<and> join '' '' (split_space (trim transfers)) = trim transfers
   \<and> (\<forall>t\<in>set (split_space (trim transfers)). CHR 0x20 \<notin> set t)"
  using parse_transfers_walk [of rt tm "split_space (trim transfers)" 0 "[]" items]
    join_split_space [of "trim transfers"] split_space_no_space [of _ "trim transfers"]
  by auto

theorem parse_covers_space_separated_tokens_witness:
  "parse_transfers test_runtime [(''ATK'', bob)]
     (split_space (trim (''eth '' @ alice @ '' 1 TOKEN '' @ bob @ '' 2 ATK ''))) 0 []
     = Inr [\<lparr>type = ''ETH'', to = alice, amount = ''1'', tokenName = None\<rparr>,
            \<lparr>type = ''TOKEN'', to = bob, amount = ''2'', tokenName = Some ''ATK''\<rparr>]
   \<and> walk_covers [\<lparr>type = ''ETH'', to = alice, amount = ''1'', tokenName = None\<rparr>,
            \<lparr>type = ''TOKEN'', to = bob, amount = ''2'', tokenName = Some ''ATK''\<rparr>]
        (split_space (trim (''eth '' @ alice @ '' 1 TOKEN '' @ bob @ '' 2 ATK '')))"
proof -
  have h: "parse_transfers test_runtime [(''ATK'', bob)]
     (split_space (trim (''eth '' @ alice @ '' 1 TOKEN '' @ bob @ '' 2 ATK ''))) 0 []
     = Inr [\<lparr>type = ''ETH'', to = alice, amount = ''1'', tokenName = None\<rparr>,
            \<lparr>type = ''TOKEN'', to = bob, amount = ''2'', tokenName = Some ''ATK''\<rparr>]"
    by (simp add: batch_eval)
  from parse_covers_space_separated_tokens [OF h] h show ?thesis by blast
qed

subsection \<open>Batch transfer: execution\<close>

lemma try_transfer_calls:
  "try_transfer rt ch w tm idx nonce clock item = (res, cs) \<Longrightarrow>
     cs = []
   \<or> (\<exists>v e. cs = [SendTransaction (address w) (to item) v (Some nonce)]
          \<and> sendTransaction ch clock (address w) (to item) v (Some nonce) = Inl e)
   \<or> (\<exists>v h. cs = [SendTransaction (address w) (to item) v (Some nonce), Wait h]
          \<and> sendTransaction ch clock (address w) (to item) v (Some nonce) = Inr h)
   \<or> (\<exists>c v e. cs = [TokenTransfer c (to item) v nonce]
          \<and> tokenTransfer ch clock c (to item) v nonce = Inl e)
   \<or> (\<exists>c v h. cs = [TokenTransfer c (to item) v nonce, Wait h]
          \<and> tokenTransfer ch clock c (to item) v nonce = Inr h)"
  by (simp add: try_transfer_def split: if_splits sum.splits option.splits) auto

lemma transfer_loop_Cons:
  "transfer_loop rt ch w tm idx nonce clock (item # rest) =
     (let r = try_transfer rt ch w tm idx nonce clock item
      in Attempt nonce (snd r) (isl (fst r))
           (case fst r of Inr entries \<Rightarrow> entries
                        | Inl errorMsg \<Rightarrow> [failure_entry rt idx item errorMsg])
         # transfer_loop rt ch w tm (idx + 1) (if isl (fst r) then nonce else nonce + 1)
             (clock + length (snd r)) rest)"
  by (cases "try_transfer rt ch w tm idx nonce clock item")
     (simp add: Let_def split: sum.splits)

lemma transfer_loop_length [simp]:
  "length (transfer_loop rt ch w tm idx nonce clock items) = length items"
  by (induction items arbitrary: idx nonce clock) (simp_all add: transfer_loop_Cons Let_def del: transfer_loop.simps(2))




lemma transfer_loop_wait:
  "k < length (concat (map calls (transfer_loop rt ch w tm idx nonce clock items))) \<Longrightarrow>
     (concat (map calls (transfer_loop rt ch w tm idx nonce clock items)) ! k
        = SendTransaction s r v n
      \<and> sendTransaction ch (clock + k) s r v n = Inr h
      \<or> concat (map calls (transfer_loop rt ch w tm idx nonce clock items)) ! k
        = TokenTransfer s r v m
      \<and> tokenTransfer ch (clock + k) s r v m = Inr h) \<Longrightarrow>
     Suc k < length (concat (map calls (transfer_loop rt ch w tm idx nonce clock items)))
     \<and> concat (map calls (transfer_loop rt ch w tm idx nonce clock items)) ! Suc k = Wait h"
proof (induction items arbitrary: idx nonce clock k)
  case Nil
  then show ?case by simp
next
  case (Cons item rest)
  obtain res cs where t: "try_transfer rt ch w tm idx nonce clock item = (res, cs)"
    by (cases "try_transfer rt ch w tm idx nonce clock item") auto
  define nonce' where "nonce' = (if isl res then nonce else nonce + 1)"
  let ?rest = "concat (map calls (transfer_loop rt ch w tm (idx + 1) nonce'
                 (clock + length cs) rest))"
  have eq: "concat (map calls (transfer_loop rt ch w tm idx nonce clock (item # rest)))
              = cs @ ?rest"
    using t by (simp add: transfer_loop_Cons Let_def nonce'_def del: transfer_loop.simps(2))
  show ?case
  proof (cases "k < length cs")
    case True
    from try_transfer_calls [OF t] True Cons.prems(2)
    have "Suc k < length cs \<and> cs ! Suc k = Wait h"
      unfolding eq by (auto simp: nth_append nth_Cons split: nat.splits)
    then show ?thesis unfolding eq by (simp add: nth_append)
  next
    case False
    then have k: "k = length cs + (k - length cs)" by simp
    from Cons.prems(1) False have lt: "k - length cs < length ?rest"
      unfolding eq by simp
    have ih: "Suc (k - length cs) < length ?rest \<and> ?rest ! Suc (k - length cs) = Wait h"
    proof (rule Cons.IH [OF lt])
      from Cons.prems(2) False
      show "?rest ! (k - length cs) = SendTransaction s r v n
              \<and> sendTransaction ch (clock + length cs + (k - length cs)) s r v n = Inr h
            \<or> ?rest ! (k - length cs) = TokenTransfer s r v m
              \<and> tokenTransfer ch (clock + length cs + (k - length cs)) s r v m = Inr h"
        unfolding eq by (simp add: nth_append)
    qed
    from ih False have len: "Suc k < length cs + length ?rest" by linarith
    from False have d: "Suc k - length cs = Suc (k - length cs)" by simp
    from False have nlt: "\<not> Suc k < length cs" by simp
    have "(cs @ ?rest) ! Suc k = Wait h"
      using ih nlt d by (simp add: nth_append)
    with len show ?thesis unfolding eq by simp
  qed
qed


lemma batch_calls_cases:
  "snd (snd (BatchMixedTransferTool_call rt ch st transfers)) = []
   \<or> (\<exists>w. snd (snd (BatchMixedTransferTool_call rt ch st transfers)) = [GetNonce (address w)])
   \<or> (\<exists>w items base.
        snd (snd (BatchMixedTransferTool_call rt ch st transfers))
          = GetNonce (address w)
            # concat (map calls (transfer_loop rt ch w (tokenMap st) 0 base 1 items)))"
  by (simp add: BatchMixedTransferTool_call_def Let_def split: option.splits sum.splits) blast







text \<open>
  C7 as stated (the next item is submitted without waiting for the receipt of the one
  before) does not hold: in a batch of two transfers the receipt of the first is awaited
  before the second is submitted.
\<close>

theorem batch_waits_for_each_receipt:
  "snd (snd (BatchMixedTransferTool_call test_runtime test_chain
     \<lparr>wallet = Some signer, tokenMap = []\<rparr> (''ETH '' @ alice @ '' 1 ETH '' @ bob @ '' 2'')))
   = [GetNonce (address signer),
      SendTransaction (address signer) alice 1000000000000000000 (Some 7),
      Wait ''0xtx1'',
      SendTransaction (address signer) bob 2000000000000000000 (Some 8),
      Wait ''0xtx3'']"
  by (simp add: batch_eval)

text \<open>
  C7, amended. During a batch every submission that the network accepts is followed at
  once by the wait for that transaction's receipt, so the next item is submitted only
  after the wait of the item before it has returned or thrown.
\<close>

theorem batch_waits_before_next_submission:
  "k < length (snd (snd (BatchMixedTransferTool_call rt ch st transfers))) \<Longrightarrow>
     (snd (snd (BatchMixedTransferTool_call rt ch st transfers)) ! k = SendTransaction s r v n
      \<and> sendTransaction ch k s r v n = Inr h
      \<or> snd (snd (BatchMixedTransferTool_call rt ch st transfers)) ! k = TokenTransfer s r v m
      \<and> tokenTransfer ch k s r v m = Inr h) \<Longrightarrow>
     Suc k < length (snd (snd (BatchMixedTransferTool_call rt ch st transfers)))
     \<and> snd (snd (BatchMixedTransferTool_call rt ch st transfers)) ! Suc k = Wait h"
proof -
  let ?tr = "snd (snd (BatchMixedTransferTool_call rt ch st transfers))"
  assume k: "k < length ?tr"
    and sub: "?tr ! k = SendTransaction s r v n \<and> sendTransaction ch k s r v n = Inr h
      \<or> ?tr ! k = TokenTransfer s r v m \<and> tokenTransfer ch k s r v m = Inr h"
  from batch_calls_cases [of rt ch st transfers]
  consider "?tr = []" | w where "?tr = [GetNonce (address w)]"
    | w items base where
      "?tr = GetNonce (address w)
             # concat (map calls (transfer_loop rt ch w (tokenMap st) 0 base 1 items))"
    by blast
  then show ?thesis
  proof cases
    case 1
    with k show ?thesis by simp
  next
    case 2
    with k sub show ?thesis by simp
  next
    case 3
    let ?cs = "concat (map calls (transfer_loop rt ch w (tokenMap st) 0 base 1 items))"
    have "k \<noteq> 0"
    proof
      assume "k = 0"
      with 3 sub show False by simp
    qed
    then obtain j where j: "k = Suc j" by (cases k) auto
    from k 3 j have lt: "j < length ?cs" by simp
    from sub 3 j
    have "?cs ! j = SendTransaction s r v n \<and> sendTransaction ch (1 + j) s r v n = Inr h
        \<or> ?cs ! j = TokenTransfer s r v m \<and> tokenTransfer ch (1 + j) s r v m = Inr h"
      by simp
    from transfer_loop_wait [OF lt this]
    show ?thesis using 3 j by simp
  qed
qed

theorem batch_waits_before_next_submission_witness:
  "1 < length (snd (snd (BatchMixedTransferTool_call test_runtime test_chain
         \<lparr>wallet = Some signer, tokenMap = []\<rparr> (''ETH '' @ alice @ '' 1 ETH '' @ bob @ '' 2''))))
   \<and> snd (snd (BatchMixedTransferTool_call test_runtime test_chain
         \<lparr>wallet = Some signer, tokenMap = []\<rparr> (''ETH '' @ alice @ '' 1 ETH '' @ bob @ '' 2''))) ! 1
       = SendTransaction (address signer) alice 1000000000000000000 (Some 7)
   \<and> sendTransaction test_chain 1 (address signer) alice 1000000000000000000 (Some 7) = Inr ''0xtx1''
   \<and> snd (snd (BatchMixedTransferTool_call test_runtime test_chain
         \<lparr>wallet = Some signer, tokenMap = []\<rparr> (''ETH '' @ alice @ '' 1 ETH '' @ bob @ '' 2''))) ! Suc 1
       = Wait ''0xtx1''"
proof -
  let ?tr = "snd (snd (BatchMixedTransferTool_call test_runtime test_chain
         \<lparr>wallet = Some signer, tokenMap = []\<rparr> (''ETH '' @ alice @ '' 1 ETH '' @ bob @ '' 2'')))"
  have tr: "?tr = [GetNonce (address signer),
      SendTransaction (address signer) alice 1000000000000000000 (Some 7),
      Wait ''0xtx1'',
      SendTransaction (address signer) bob 2000000000000000000 (Some 8),
      Wait ''0xtx3'']"
    by (simp add: batch_eval)
  have h1: "1 < length ?tr" unfolding tr by simp
  have h2: "?tr ! 1 = SendTransaction (address signer) alice 1000000000000000000 (Some 7)
      \<and> sendTransaction test_chain 1 (address signer) alice 1000000000000000000 (Some 7) = Inr ''0xtx1''
     \<or> ?tr ! 1 = TokenTransfer (address signer) alice 1000000000000000000 0
      \<and> tokenTransfer test_chain 1 (address signer) alice 1000000000000000000 0 = Inr ''0xtx1''"
    unfolding tr by (simp add: eval_defs decimal_string.simps)
  from batch_waits_before_next_submission [OF h1 h2] h1 h2 show ?thesis
    unfolding tr by (simp add: eval_defs decimal_string.simps)
qed

subsection \<open>Batch transfer: validation and the report\<close>

text \<open>
  C2 at a failing input. With an empty registry the asset name \<^verbatim>\<open>constructor\<close> is not
  registered, yet \<^verbatim>\<open>tokenMap["constructor"]\<close> is truthy (the member inherited from
  \<^verbatim>\<open>Object.prototype\<close>), so the batch passes validation, the nonce is read from the chain,
  and the item is reported as a failed transfer instead of the batch being rejected.
\<close>

theorem inherited_name_passes_validation:
  "get_prop [] ''MTK'' = Undefined
   \<and> map_of [] ''constructor'' = None
   \<and> BatchMixedTransferTool_call test_runtime test_chain
       \<lparr>wallet = Some signer, tokenMap = []\<rparr> (''TOKEN '' @ alice @ '' 1 constructor'')
     = (Inr (batch_summary test_runtime
          [failure_entry test_runtime 0
             \<lparr>type = ''TOKEN'', to = alice, amount = ''1'', tokenName = Some ''constructor''\<rparr>
             ''invalid value for Contract target'']),
        \<lparr>wallet = Some signer, tokenMap = []\<rparr>,
        [GetNonce (address signer)])"
  by (simp add: batch_eval)

text \<open>
  What does hold: the tool makes a call only after the whole token stream has been walked
  and every item has passed the checks the source makes (where the registry check is the
  truthiness of \<^verbatim>\<open>tokenMap[tokenName]\<close>).
\<close>

lemma batch_calls_only_after_all_checks:
  assumes "snd (snd (BatchMixedTransferTool_call rt ch st transfers)) \<noteq> []"
  shows "\<exists>items. parse_transfers rt (tokenMap st) (split_space (trim transfers)) 0 [] = Inr items
           \<and> walk_covers items (split_space (trim transfers))
           \<and> (\<forall>item\<in>set items. passes_checks rt (tokenMap st) item)"
proof -
  from assms obtain items where
    p: "parse_transfers rt (tokenMap st) (split_space (trim transfers)) 0 [] = Inr items"
    by (auto simp: BatchMixedTransferTool_call_def Let_def split: option.splits sum.splits if_splits)
  from parse_transfers_walk [OF p] p show ?thesis by auto
qed

text \<open>
  C3 at a failing input. A token was created with the empty symbol, and the batch names it
  (two spaces in a row give the empty asset name). The batch has two items, but the
  TOKEN item runs through \<^verbatim>\<open>else if (type === "TOKEN" && tokenName)\<close> without a transfer and
  without an entry: the report has one entry, numbered 2.
\<close>

theorem empty_asset_name_item_leaves_no_entry:
  "parse_transfers test_runtime [([], bob)]
     (split_space (trim (''TOKEN '' @ alice @ '' 5  ETH '' @ bob @ '' 2''))) 0 []
     = Inr [\<lparr>type = ''TOKEN'', to = alice, amount = ''5'', tokenName = Some []\<rparr>,
            \<lparr>type = ''ETH'', to = bob, amount = ''2'', tokenName = None\<rparr>]
   \<and> BatchMixedTransferTool_call test_runtime test_chain
       \<lparr>wallet = Some signer, tokenMap = [([], bob)]\<rparr>
       (''TOKEN '' @ alice @ '' 5  ETH '' @ bob @ '' 2'')
     = (Inr (batch_summary test_runtime
          [success_entry test_runtime 1 ''ETH''
             \<lparr>type = ''ETH'', to = bob, amount = ''2'', tokenName = None\<rparr> ''0xtx1'']),
        \<lparr>wallet = Some signer, tokenMap = [([], bob)]\<rparr>,
        [GetNonce (address signer),
         SendTransaction (address signer) bob 2000000000000000000 (Some 8),
         Wait ''0xtx1''])"
  by (simp add: batch_eval)

text \<open>
  What does hold: when no item of a valid batch has the empty asset name, every item
  leaves exactly one entry, a success entry or a failure entry with the item's own number,
  so the report has as many entries as the batch has items, in the order of the input.
\<close>

lemma try_transfer_one_entry:
  assumes "type item = ''ETH'' \<or> type item = ''TOKEN'' \<and> tokenName item \<noteq> None \<and> tokenName item \<noteq> Some []"
  shows "(\<exists>h cs. try_transfer rt ch w tm idx nonce clock item
                  = (Inr [success_entry rt idx (asset_label item) item h], cs))
       \<or> (\<exists>e cs. try_transfer rt ch w tm idx nonce clock item = (Inl e, cs))"
  using assms
  by (auto simp: try_transfer_def asset_label_def split: sum.splits option.splits)

lemma transfer_loop_one_entry:
  "i < length items \<Longrightarrow>
   type (items ! i) = ''ETH''
     \<or> type (items ! i) = ''TOKEN'' \<and> tokenName (items ! i) \<noteq> None \<and> tokenName (items ! i) \<noteq> Some [] \<Longrightarrow>
   (\<exists>h. pushed (transfer_loop rt ch w tm idx nonce clock items ! i)
           = [success_entry rt (idx + i) (asset_label (items ! i)) (items ! i) h])
   \<or> (\<exists>e. pushed (transfer_loop rt ch w tm idx nonce clock items ! i)
           = [failure_entry rt (idx + i) (items ! i) e])"
proof (induction items arbitrary: idx nonce clock i)
  case Nil
  then show ?case by simp
next
  case (Cons item rest)
  show ?case
  proof (cases i)
    case 0
    with Cons.prems try_transfer_one_entry [of item rt ch w tm idx nonce clock]
    show ?thesis
      by (auto simp: transfer_loop_Cons Let_def simp del: transfer_loop.simps(2))
  next
    case (Suc j)
    with Cons.prems have j: "j < length rest" and k: "type (rest ! j) = ''ETH''
     \<or> type (rest ! j) = ''TOKEN'' \<and> tokenName (rest ! j) \<noteq> None \<and> tokenName (rest ! j) \<noteq> Some []"
      by simp_all
    from Cons.IH [OF j k, of "idx + 1"] Suc show ?thesis
      by (simp add: transfer_loop_Cons Let_def del: transfer_loop.simps(2))
  qed
qed

lemma length_concat_singletons:
  "(\<forall>x\<in>set xs. length (f x) = 1) \<Longrightarrow> length (concat (map f xs)) = length xs"
  by (induction xs) simp_all

lemma batch_one_entry_per_named_item:
  assumes "parse_transfers rt tm parts 0 [] = Inr items"
    and "\<forall>item\<in>set items. tokenName item \<noteq> Some []"
  shows "length (concat (map pushed (transfer_loop rt ch w tm 0 base 1 items))) = length items
       \<and> (\<forall>i<length items.
            (\<exists>h. pushed (transfer_loop rt ch w tm 0 base 1 items ! i)
                    = [success_entry rt i (asset_label (items ! i)) (items ! i) h])
            \<or> (\<exists>e. pushed (transfer_loop rt ch w tm 0 base 1 items ! i)
                    = [failure_entry rt i (items ! i) e]))"
proof -
  let ?J = "transfer_loop rt ch w tm 0 base 1 items"
  from parse_transfers_walk [OF assms(1)]
  have ok: "\<forall>item\<in>set items. passes_checks rt tm item" by auto
  have kind: "type (items ! i) = ''ETH''
     \<or> type (items ! i) = ''TOKEN'' \<and> tokenName (items ! i) \<noteq> None
        \<and> tokenName (items ! i) \<noteq> Some []" if "i < length items" for i
  proof -
    from that have m: "items ! i \<in> set items" by simp
    with ok have "passes_checks rt tm (items ! i)" by blast
    with assms(2) m show ?thesis
      by (auto simp: passes_checks_def split: option.splits)
  qed
  have each: "(\<exists>h. pushed (?J ! i) = [success_entry rt i (asset_label (items ! i)) (items ! i) h])
            \<or> (\<exists>e. pushed (?J ! i) = [failure_entry rt i (items ! i) e])"
    if "i < length items" for i
    using transfer_loop_one_entry [OF that kind [OF that], of rt ch w tm 0 base 1] by simp
  have "\<forall>a\<in>set ?J. length (pushed a) = 1"
  proof
    fix a assume "a \<in> set ?J"
    then obtain i where i: "i < length ?J" and a: "a = ?J ! i"
      by (auto simp: in_set_conv_nth)
    from i have "i < length items" by simp
    from each [OF this] a show "length (pushed a) = 1" by auto
  qed
  then have "length (concat (map pushed ?J)) = length ?J"
    by (rule length_concat_singletons)
  with each show ?thesis by simp
qed

subsection \<open>The agent graph\<close>

lemma shouldContinue_cases:
  "shouldContinue ms = Inr nxt \<Longrightarrow> nxt = ''tools'' \<or> nxt = END"
  by (auto simp: shouldContinue_def split: if_splits option.splits)

lemma shouldContinue_answered:
  "shouldContinue (ms @ [response]) \<noteq> Inl e"
  by (simp add: shouldContinue_def split: option.splits)

lemma run_graph_visited_le:
  "length (snd (run_graph llm toolNode err n nd st ms)) \<le> n"
proof (induction n arbitrary: nd st ms)
  case 0
  then show ?case by simp
next
  case (Suc n)
  show ?case
  proof (cases nd)
    case agent_node
    show ?thesis
      using Suc.IH [of tools_node st] agent_node
      by (auto simp: case_prod_unfold split: sum.splits)
  next
    case tools_node
    show ?thesis
      using Suc.IH [of agent_node] tools_node
      by (auto simp: case_prod_unfold split: sum.splits)
  qed
qed

lemma run_graph_ends_on_answer:
  "fst (run_graph llm toolNode err n nd st ms) = Inr (final, st') \<Longrightarrow>
     shouldContinue final = Inr END"
proof (induction n arbitrary: nd st ms)
  case 0
  then show ?case by simp
next
  case (Suc n)
  show ?case
  proof (cases nd)
    case agent_node
    show ?thesis
    proof (cases "callAgent llm ms")
      case (Inl e)
      with Suc.prems agent_node show ?thesis by simp
    next
      case (Inr answered)
      show ?thesis
      proof (cases "shouldContinue answered")
        case (Inl e)
        with Suc.prems agent_node Inr show ?thesis by simp
      next
        case nx: (Inr nxt)
        show ?thesis
        proof (cases "nxt = ''tools''")
          case True
          with Suc.prems agent_node Inr nx
          have "fst (run_graph llm toolNode err n tools_node st answered) = Inr (final, st')"
            by (simp add: case_prod_unfold)
          then show ?thesis by (rule Suc.IH)
        next
          case False
          with shouldContinue_cases [OF nx] have "nxt = END" by simp
          with Suc.prems agent_node Inr nx False show ?thesis by simp
        qed
      qed
    qed
  next
    case tools_node
    show ?thesis
    proof (cases "toolNode st ms")
      case (Inl e)
      with Suc.prems tools_node show ?thesis by simp
    next
      case (Inr p)
      obtain out st1 where p: "p = (out, st1)" by (cases p) auto
      from Suc.prems tools_node Inr p
      have "fst (run_graph llm toolNode err n agent_node st1 (ms @ out)) = Inr (final, st')"
        by (simp add: case_prod_unfold)
      then show ?thesis by (rule Suc.IH)
    qed
  qed
qed

lemma run_graph_out_of_steps:
  assumes llm: "\<forall>ms. \<exists>content requested. llm ms = Inr (AIMessage content requested) \<and> requested \<noteq> []"
    and tn: "\<forall>s ms. shouldContinue ms = Inr ''tools'' \<longrightarrow> (\<exists>produced s'. toolNode s ms = Inr (produced, s'))"
  shows "nd = tools_node \<longrightarrow> shouldContinue ms = Inr ''tools'' \<Longrightarrow>
         fst (run_graph llm toolNode err n nd st ms) = Inl err
         \<and> length (snd (run_graph llm toolNode err n nd st ms)) = n"
proof (induction n arbitrary: nd st ms)
  case 0
  then show ?case by simp
next
  case (Suc n)
  show ?case
  proof (cases nd)
    case agent_node
    from llm obtain content requested where
      r: "llm (SystemMessage system_prompt # ms) = Inr (AIMessage content requested)"
      and ne: "requested \<noteq> []"
      by blast
    have c: "callAgent llm ms = Inr (ms @ [AIMessage content requested])"
      using r by (simp add: callAgent_def)
    have s: "shouldContinue (ms @ [AIMessage content requested]) = Inr ''tools''"
      using ne by (simp add: shouldContinue_def)
    from Suc.IH [of tools_node "ms @ [AIMessage content requested]" st] s
    show ?thesis using agent_node c s by (simp add: case_prod_unfold)
  next
    case tools_node
    with Suc.prems have "shouldContinue ms = Inr ''tools''" by simp
    with tn obtain produced s' where t: "toolNode st ms = Inr (produced, s')" by blast
    from Suc.IH [of agent_node "ms @ produced" s']
    show ?thesis using tools_node t by (simp add: case_prod_unfold)
  qed
qed

lemma ToolNode_returns:
  "shouldContinue ms = Inr ''tools'' \<Longrightarrow> \<exists>produced s'. ToolNode rt ch st ms = Inr (produced, s')"
  by (cases "run_requested rt ch st (the (tool_calls (last ms)))")
     (auto simp: shouldContinue_def ToolNode_def END_def split: if_splits option.splits)

lemma ToolNode_rejection:
  "fst (invoke_tool rt ch st c) = Inl thrown \<Longrightarrow>
     ToolNode rt ch st (messages @ [AIMessage content [c]])
       = Inr ([ToolMessage (''Error: '' @ thrown @ nl @ '' Please fix your mistakes.'')],
              fst (snd (invoke_tool rt ch st c)))"
  by (cases "invoke_tool rt ch st c") (auto simp: ToolNode_def)

lemma run_graph_failure:
  "fst (run_graph llm (ToolNode rt ch) err n nd st ms) = Inl e \<Longrightarrow>
   nd = tools_node \<longrightarrow> shouldContinue ms = Inr ''tools'' \<Longrightarrow>
   e = err \<or> (\<exists>shown. llm shown = Inl e)"
proof (induction n arbitrary: nd st ms)
  case 0
  then show ?case by simp
next
  case (Suc n)
  show ?case
  proof (cases nd)
    case agent_node
    show ?thesis
    proof (cases "llm (SystemMessage system_prompt # ms)")
      case (Inl e')
      with Suc.prems agent_node have "e' = e" by (simp add: callAgent_def)
      with Inl show ?thesis by blast
    next
      case (Inr response)
      then have c: "callAgent llm ms = Inr (ms @ [response])" by (simp add: callAgent_def)
      show ?thesis
      proof (cases "shouldContinue (ms @ [response])")
        case (Inl e')
        with shouldContinue_answered show ?thesis by blast
      next
        case nx: (Inr nxt)
        show ?thesis
        proof (cases "nxt = ''tools''")
          case True
          with Suc.prems agent_node c nx
          have "fst (run_graph llm (ToolNode rt ch) err n tools_node st (ms @ [response])) = Inl e"
            by (simp add: case_prod_unfold)
          from Suc.IH [OF this] nx True show ?thesis by simp
        next
          case False
          with Suc.prems agent_node c nx show ?thesis by simp
        qed
      qed
    qed
  next
    case tools_node
    with Suc.prems have "shouldContinue ms = Inr ''tools''" by simp
    from ToolNode_returns [OF this, of rt ch st] obtain produced s' where
      t: "ToolNode rt ch st ms = Inr (produced, s')" by blast
    from Suc.prems tools_node t
    have "fst (run_graph llm (ToolNode rt ch) err n agent_node s' (ms @ produced)) = Inl e"
      by (simp add: case_prod_unfold)
    from Suc.IH [OF this] show ?thesis by simp
  qed
qed

text \<open>
  C6 (loop termination bound). For every conversation, every model and every tool node,
  the run of the graph executes at most \<open>recursionLimit\<close> nodes. When the model requests a
  tool on every step (and the tool node answers every request), the run ends with the
  error of the runner after exactly that many nodes, so the cycle of \<^verbatim>\<open>agent\<close> and \<^verbatim>\<open>tools\<close>
  cannot go on without bound. A run that ends normally ends with a message that requests
  no tool.
\<close>

theorem turn_loop_within_limit:
  "length (snd (agent_invoke r llm toolNode st messages)) \<le> recursionLimit r
   \<and> ((\<forall>ms. \<exists>content requested. llm ms = Inr (AIMessage content requested) \<and> requested \<noteq> [])
        \<and> (\<forall>s ms. shouldContinue ms = Inr ''tools''
              \<longrightarrow> (\<exists>produced s'. toolNode s ms = Inr (produced, s'))) \<longrightarrow>
      fst (agent_invoke r llm toolNode st messages) = Inl (recursionError r)
      \<and> length (snd (agent_invoke r llm toolNode st messages)) = recursionLimit r)
   \<and> (fst (agent_invoke r llm toolNode st messages) = Inr (final, st') \<longrightarrow>
        shouldContinue final = Inr END)"
  unfolding agent_invoke_def
  using run_graph_visited_le [of llm toolNode "recursionError r" "recursionLimit r" agent_node st messages]
    run_graph_out_of_steps [of llm toolNode agent_node messages "recursionError r" "recursionLimit r" st]
    run_graph_ends_on_answer [of llm toolNode "recursionError r" "recursionLimit r" agent_node st messages final st']
  by blast

theorem turn_loop_within_limit_witness:
  "insistent_llm [SystemMessage system_prompt, HumanMessage ''help'']
     = Inr (AIMessage [] [Call_help])
   \<and> fst (agent_invoke default_runner insistent_llm (ToolNode test_runtime test_chain)
            \<lparr>wallet = None, tokenMap = []\<rparr> [HumanMessage ''help''])
       = Inl (recursionError default_runner)
   \<and> length (snd (agent_invoke default_runner insistent_llm (ToolNode test_runtime test_chain)
            \<lparr>wallet = None, tokenMap = []\<rparr> [HumanMessage ''help''])) = 25
   \<and> agent_invoke default_runner answering_llm (ToolNode test_runtime test_chain)
        \<lparr>wallet = Some signer, tokenMap = []\<rparr> [HumanMessage ''disconnect'']
       = (Inr ([HumanMessage ''disconnect'', AIMessage [] [Call_disconnectWallet],
                ToolMessage ''Wallet disconnected successfully'',
                AIMessage ''The wallet is disconnected.'' []],
               \<lparr>wallet = None, tokenMap = []\<rparr>),
          [agent_node, tools_node, agent_node])
   \<and> shouldContinue [HumanMessage ''disconnect'', AIMessage [] [Call_disconnectWallet],
                ToolMessage ''Wallet disconnected successfully'',
                AIMessage ''The wallet is disconnected.'' []] = Inr END"
proof -
  let ?tn = "ToolNode test_runtime test_chain"
  let ?final = "[HumanMessage ''disconnect'', AIMessage [] [Call_disconnectWallet],
                ToolMessage ''Wallet disconnected successfully'',
                AIMessage ''The wallet is disconnected.'' []]"
  have h1: "\<forall>ms. \<exists>content requested. insistent_llm ms = Inr (AIMessage content requested)
            \<and> requested \<noteq> []"
    by (simp add: insistent_llm_def)
  have h2: "\<forall>s ms. shouldContinue ms = Inr ''tools''
         \<longrightarrow> (\<exists>produced s'. ?tn s ms = Inr (produced, s'))"
    using ToolNode_returns by blast
  have run: "agent_invoke default_runner answering_llm ?tn
        \<lparr>wallet = Some signer, tokenMap = []\<rparr> [HumanMessage ''disconnect'']
       = (Inr (?final, \<lparr>wallet = None, tokenMap = []\<rparr>), [agent_node, tools_node, agent_node])"
    by (simp add: agent_invoke_def default_runner_def eval_nat_numeral callAgent_def
        answering_llm_def shouldContinue_def END_def ToolNode_def
        DisconnectWalletTool_call_def clearWallet_def)
  from turn_loop_within_limit [of default_runner insistent_llm ?tn
      "\<lparr>wallet = None, tokenMap = []\<rparr>" "[HumanMessage ''help'']"] h1 h2
  have a: "fst (agent_invoke default_runner insistent_llm ?tn
            \<lparr>wallet = None, tokenMap = []\<rparr> [HumanMessage ''help''])
       = Inl (recursionError default_runner)
     \<and> length (snd (agent_invoke default_runner insistent_llm ?tn
            \<lparr>wallet = None, tokenMap = []\<rparr> [HumanMessage ''help''])) = 25"
    by (simp add: default_runner_def)
  from turn_loop_within_limit [of default_runner answering_llm ?tn
      "\<lparr>wallet = Some signer, tokenMap = []\<rparr>" "[HumanMessage ''disconnect'']" ?final
      "\<lparr>wallet = None, tokenMap = []\<rparr>"] run
  have b: "shouldContinue ?final = Inr END" by simp
  have h0: "insistent_llm [SystemMessage system_prompt, HumanMessage ''help'']
     = Inr (AIMessage [] [Call_help])"
    by (simp add: insistent_llm_def)
  from h0 a b run show ?thesis by blast
qed

subsection \<open>Failures of the network and of signing\<close>

lemma agent_invoke_failure:
  "fst (agent_invoke r llm (ToolNode rt ch) st messages) = Inl failure \<Longrightarrow>
     failure = recursionError r \<or> (\<exists>shown. llm shown = Inl failure)"
  unfolding agent_invoke_def
  using run_graph_failure [of llm rt ch "recursionError r" "recursionLimit r" agent_node st
      messages failure]
  by simp

text \<open>
  C4 as stated (a failure is caught inside the tool and returned as a result string) does
  not hold: with a wallet set and a network that cannot be reached, \<^verbatim>\<open>transferTokens\<close> does
  not return a text, it throws.
\<close>

theorem transfer_failure_thrown:
  "TransferTokensTool_call test_runtime unreachable_chain
     \<lparr>wallet = Some signer, tokenMap = []\<rparr> alice ''1''
   = (Inl ''Failed to transfer tokens: could not detect network'',
      \<lparr>wallet = Some signer, tokenMap = []\<rparr>,
      [SendTransaction (address signer) alice 1000000000000000000 None])"
  by (simp add: TransferTokensTool_call_def eval_defs)

text \<open>
  C4, amended. In \<^verbatim>\<open>setWallet\<close>, \<^verbatim>\<open>signMessage\<close> and \<^verbatim>\<open>transferTokens\<close> a failure of the
  library, the signer or the network is caught inside the tool and thrown again as a new
  error whose message is the tool's description of the failure followed by the reason,
  and whatever these three tools throw has that form. The tool node catches what a tool
  throws and puts it into the conversation as an ordinary tool message that carries the
  message of the error; it answers every request of the model. So no failure of a tool
  reaches the caller of the loop: a run fails only with an error of the model itself or
  with the runner's error for the step limit.
\<close>

theorem failures_rethrown_and_contained:
  "(newWallet rt key = Inl e \<longrightarrow>
      SetWalletTool_call rt st key = (Inl (''Failed to set wallet: '' @ e), st, []))
   \<and> (getWallet st = Some w \<and> signMessage ch 0 (address w) message = Inl e \<longrightarrow>
      fst (SignMessageTool_call ch st message) = Inl (''Failed to sign message: '' @ e))
   \<and> (getWallet st = Some w \<and> parseEther rt amt = Inr v
        \<and> sendTransaction ch 0 (address w) recipient v None = Inl e \<longrightarrow>
      fst (TransferTokensTool_call rt ch st recipient amt)
        = Inl (''Failed to transfer tokens: '' @ e))
   \<and> (getWallet st = Some w \<and> parseEther rt amt = Inr v
        \<and> sendTransaction ch 0 (address w) recipient v None = Inr h
        \<and> wait ch 1 h = Inl e \<longrightarrow>
      fst (TransferTokensTool_call rt ch st recipient amt)
        = Inl (''Failed to transfer tokens: '' @ e))
   \<and> (fst (SetWalletTool_call rt st key) = Inl m \<longrightarrow>
        (\<exists>reason. m = ''Failed to set wallet: '' @ reason))
   \<and> (fst (SignMessageTool_call ch st message) = Inl m \<longrightarrow>
        (\<exists>reason. m = ''Failed to sign message: '' @ reason))
   \<and> (fst (TransferTokensTool_call rt ch st recipient amt) = Inl m \<longrightarrow>
        (\<exists>reason. m = ''Failed to transfer tokens: '' @ reason))
   \<and> (fst (invoke_tool rt ch st c) = Inl thrown \<longrightarrow>
        ToolNode rt ch st (messages @ [AIMessage content [c]])
          = Inr ([ToolMessage (''Error: '' @ thrown @ nl @ '' Please fix your mistakes.'')],
                 fst (snd (invoke_tool rt ch st c))))
   \<and> (shouldContinue messages = Inr ''tools'' \<longrightarrow>
        (\<exists>produced st'. ToolNode rt ch st messages = Inr (produced, st')))
   \<and> (fst (agent_invoke r llm (ToolNode rt ch) st messages) = Inl failure \<longrightarrow>
        failure = recursionError r \<or> (\<exists>shown. llm shown = Inl failure))"
proof -
  have tools: "(newWallet rt key = Inl e \<longrightarrow>
      SetWalletTool_call rt st key = (Inl (''Failed to set wallet: '' @ e), st, []))
   \<and> (getWallet st = Some w \<and> signMessage ch 0 (address w) message = Inl e \<longrightarrow>
      fst (SignMessageTool_call ch st message) = Inl (''Failed to sign message: '' @ e))
   \<and> (getWallet st = Some w \<and> parseEther rt amt = Inr v
        \<and> sendTransaction ch 0 (address w) recipient v None = Inl e \<longrightarrow>
      fst (TransferTokensTool_call rt ch st recipient amt)
        = Inl (''Failed to transfer tokens: '' @ e))
   \<and> (getWallet st = Some w \<and> parseEther rt amt = Inr v
        \<and> sendTransaction ch 0 (address w) recipient v None = Inr h
        \<and> wait ch 1 h = Inl e \<longrightarrow>
      fst (TransferTokensTool_call rt ch st recipient amt)
        = Inl (''Failed to transfer tokens: '' @ e))
   \<and> (fst (SetWalletTool_call rt st key) = Inl m \<longrightarrow>
        (\<exists>reason. m = ''Failed to set wallet: '' @ reason))
   \<and> (fst (SignMessageTool_call ch st message) = Inl m \<longrightarrow>
        (\<exists>reason. m = ''Failed to sign message: '' @ reason))
   \<and> (fst (TransferTokensTool_call rt ch st recipient amt) = Inl m \<longrightarrow>
        (\<exists>reason. m = ''Failed to transfer tokens: '' @ reason))"
    by (auto simp: SetWalletTool_call_def SignMessageTool_call_def TransferTokensTool_call_def
        split: sum.splits option.splits)
  from tools ToolNode_rejection [of rt ch st c thrown messages content]
    ToolNode_returns [of messages rt ch st]
    agent_invoke_failure [of r llm rt ch st messages failure]
  show ?thesis by blast
qed

theorem failures_rethrown_and_contained_witness:
  "getWallet \<lparr>wallet = Some signer, tokenMap = []\<rparr> = Some signer
   \<and> parseEther test_runtime ''1'' = Inr 1000000000000000000
   \<and> sendTransaction unreachable_chain 0 (address signer) alice 1000000000000000000 None
        = Inl ''could not detect network''
   \<and> fst (TransferTokensTool_call test_runtime unreachable_chain
            \<lparr>wallet = Some signer, tokenMap = []\<rparr> alice ''1'')
        = Inl (''Failed to transfer tokens: '' @ ''could not detect network'')
   \<and> fst (invoke_tool test_runtime unreachable_chain \<lparr>wallet = Some signer, tokenMap = []\<rparr>
            (Call_transferTokens alice ''1''))
        = Inl ''Failed to transfer tokens: could not detect network''
   \<and> ToolNode test_runtime unreachable_chain \<lparr>wallet = Some signer, tokenMap = []\<rparr>
        ([HumanMessage ''send''] @ [AIMessage [] [Call_transferTokens alice ''1'']])
        = Inr ([ToolMessage (''Error: '' @ ''Failed to transfer tokens: could not detect network''
                             @ nl @ '' Please fix your mistakes.'')],
               \<lparr>wallet = Some signer, tokenMap = []\<rparr>)
   \<and> shouldContinue ([HumanMessage ''send''] @ [AIMessage [] [Call_transferTokens alice ''1'']])
        = Inr ''tools''"
proof -
  let ?st = "\<lparr>wallet = Some signer, tokenMap = []\<rparr>"
  let ?c = "Call_transferTokens alice ''1''"
  let ?ms = "[HumanMessage ''send''] @ [AIMessage [] [?c]]"
  have h: "getWallet ?st = Some signer
     \<and> parseEther test_runtime ''1'' = Inr 1000000000000000000
     \<and> sendTransaction unreachable_chain 0 (address signer) alice 1000000000000000000 None
        = Inl ''could not detect network''"
    by (simp add: eval_defs)
  have inv: "invoke_tool test_runtime unreachable_chain ?st ?c
      = (Inl ''Failed to transfer tokens: could not detect network'', ?st,
         [SendTransaction (address signer) alice 1000000000000000000 None])"
    by (simp add: TransferTokensTool_call_def eval_defs)
  have sc: "shouldContinue ?ms = Inr ''tools''" by (simp add: shouldContinue_def)
  note T = failures_rethrown_and_contained [where rt = test_runtime and ch = unreachable_chain
        and st = ?st and w = signer and amt = "''1''"
        and v = 1000000000000000000 and recipient = alice and e = "''could not detect network''"
        and c = ?c and thrown = "''Failed to transfer tokens: could not detect network''"
        and messages = "[HumanMessage ''send'']" and content = "[]"]
  from T h have a: "fst (TransferTokensTool_call test_runtime unreachable_chain ?st alice ''1'')
        = Inl (''Failed to transfer tokens: '' @ ''could not detect network'')"
    by blast
  from T inv have b: "ToolNode test_runtime unreachable_chain ?st ?ms
        = Inr ([ToolMessage (''Error: '' @ ''Failed to transfer tokens: could not detect network''
                             @ nl @ '' Please fix your mistakes.'')], ?st)"
    by simp
  from h a b sc inv show ?thesis by simp
qed

end
